theory Spec2Isabelle
  imports Main
begin

text \<open>
  A shallow embedding of the DNS management service: the three provider clients
  (\<^verbatim>\<open>AdaptiveCloudflareProvider\<close>, \<^verbatim>\<open>CloudflareDNSProvider\<close>, \<^verbatim>\<open>DigitalOceanDNSProvider\<close>)
  and the service \<^verbatim>\<open>DNSService\<close> over them. Promises are modelled by their outcome:
  a rejected promise (a thrown error) is \<open>Inl\<close>, a fulfilled one is \<open>Inr\<close>. Object state
  (the zone cache, the account id, the retry counter) is passed explicitly. The remote APIs
  are a parameter: an oracle that answers each request, given the requests issued so far.
  Logging is not modelled.
\<close>

section \<open>JavaScript string operations used by the providers\<close>

text \<open>\<^verbatim>\<open>s.split(c)\<close> for a one-character separator: never empty, \<^verbatim>\<open>''.split('.')\<close>
  is the one-element list of the empty string.\<close>

fun split_on :: "char \<Rightarrow> string \<Rightarrow> string list" where
  "split_on c [] = [[]]"
| "split_on c (x # xs) =
     (if x = c then [] # split_on c xs
      else (case split_on c xs of
              [] \<Rightarrow> [[x]]
            | p # ps \<Rightarrow> (x # p) # ps))"

text \<open>\<^verbatim>\<open>parts.join(sep)\<close>.\<close>

fun join :: "string \<Rightarrow> string list \<Rightarrow> string" where
  "join sep [] = []"
| "join sep [p] = p"
| "join sep (p # q # ps) = p @ sep @ join sep (q # ps)"

text \<open>\<^verbatim>\<open>parts.slice(-n)\<close>: the last \<open>n\<close> elements (all of them when there are fewer).\<close>

definition slice_last :: "nat \<Rightarrow> 'a list \<Rightarrow> 'a list" where
  "slice_last n xs = drop (length xs - n) xs"

text \<open>\<^verbatim>\<open>s.endsWith(t)\<close>.\<close>

definition endsWith :: "string \<Rightarrow> string \<Rightarrow> bool" where
  "endsWith s t = (length t \<le> length s \<and> drop (length s - length t) s = t)"

text \<open>\<^verbatim>\<open>s.includes(t)\<close>: \<open>t\<close> occurs in \<open>s\<close> as a contiguous substring.\<close>

fun str_includes :: "string \<Rightarrow> string \<Rightarrow> bool" where
  "str_includes [] t = (t = [])"
| "str_includes (x # xs) t = (take (length t) (x # xs) = t \<or> str_includes xs t)"

section \<open>Root-domain extraction\<close>

text \<open>\<^verbatim>\<open>CloudflareDNSProvider.extractRootDomain\<close>: the last two labels, no special suffixes.\<close>

definition cf_extractRootDomain :: "string \<Rightarrow> string" where
  "cf_extractRootDomain domain =
     (let parts = split_on CHR ''.'' domain in
      if length parts \<le> 2 then domain
      else join ''.'' (slice_last 2 parts))"

text \<open>\<^verbatim>\<open>AdaptiveCloudflareProvider.extractRootDomain\<close>: the list \<^verbatim>\<open>specialTlds\<close> and the
  loop over it, which returns at the first entry that the joined last three labels end with.\<close>

definition specialTlds :: "string list" where
  "specialTlds = [''co.uk'', ''com.au'', ''co.nz'', ''co.za'']"

definition extractRootDomain :: "string \<Rightarrow> string" where
  "extractRootDomain domain =
     (let parts = split_on CHR ''.'' domain in
      if length parts \<le> 2 then domain
      else
        let lastThree = join ''.'' (slice_last 3 parts) in
        if list_ex (\<lambda>tld. endsWith lastThree tld) specialTlds
        then join ''.'' (slice_last 3 parts)
        else join ''.'' (slice_last 2 parts))"

section \<open>JavaScript truthiness and number rendering\<close>

text \<open>An optional string is truthy when it is present and not empty; an optional number
  when it is present and not zero. \<^verbatim>\<open>a || b\<close> is \<open>a\<close> when \<open>a\<close> is truthy, else \<open>b\<close>.\<close>

definition truthy :: "string option \<Rightarrow> bool" where
  "truthy a = (case a of None \<Rightarrow> False | Some s \<Rightarrow> s \<noteq> [])"

definition or_str :: "string option \<Rightarrow> string \<Rightarrow> string" where
  "or_str a b = (case a of None \<Rightarrow> b | Some s \<Rightarrow> if s = [] then b else s)"

definition or_opt :: "string option \<Rightarrow> string option \<Rightarrow> string option" where
  "or_opt a b = (if truthy a then a else b)"

definition or_nat :: "nat option \<Rightarrow> nat \<Rightarrow> nat" where
  "or_nat a b = (case a of None \<Rightarrow> b | Some n \<Rightarrow> if n = 0 then b else n)"

text \<open>\<^verbatim>\<open>p || undefined\<close> on an optional number.\<close>

definition or_undefined :: "nat option \<Rightarrow> nat option" where
  "or_undefined a = (case a of None \<Rightarrow> None | Some n \<Rightarrow> if n = 0 then None else Some n)"

text \<open>Decimal rendering of a number, as a template literal and \<^verbatim>\<open>toString()\<close> give.\<close>

definition digit_char :: "nat \<Rightarrow> char" where
  "digit_char d = ''0123456789'' ! d"

fun string_of_nat :: "nat \<Rightarrow> string" where
  "string_of_nat n =
     (if n < 10 then [digit_char n]
      else string_of_nat (n div 10) @ [digit_char (n mod 10)])"

declare string_of_nat.simps [simp del]

section \<open>Errors\<close>

text \<open>
  What the code reads of a caught error: \<^verbatim>\<open>error.message\<close>, \<^verbatim>\<open>error.response?.status\<close>, the
  API's own message in the response body (\<^verbatim>\<open>error.response?.data?.errors?.[0]?.message\<close> for
  Cloudflare, \<^verbatim>\<open>error.response?.data?.message\<close> for DigitalOcean), and the fields
  \<^verbatim>\<open>statusCode\<close> and \<^verbatim>\<open>provider\<close> that only a \<^verbatim>\<open>DNSProviderError\<close> has.
\<close>

record js_error =
  message :: string
  response_status :: "nat option"
  response_message :: "string option"
  statusCode :: "nat option"
  error_provider :: "string option"

text \<open>\<^verbatim>\<open>new Error(msg)\<close>.\<close>

definition Error :: "string \<Rightarrow> js_error" where
  "Error msg = \<lparr>message = msg, response_status = None, response_message = None,
                 statusCode = None, error_provider = None\<rparr>"

text \<open>\<^verbatim>\<open>new DNSProviderError(msg, statusCode, provider)\<close>.\<close>

definition DNSProviderError :: "string \<Rightarrow> nat \<Rightarrow> string option \<Rightarrow> js_error" where
  "DNSProviderError msg code prov =
     \<lparr>message = msg, response_status = None, response_message = None,
      statusCode = Some code, error_provider = prov\<rparr>"

section \<open>Records of the uniform interface and of the provider APIs\<close>

text \<open>\<^verbatim>\<open>DNSRecord\<close> without its optional id, and \<^verbatim>\<open>DNSRecordResult\<close>, which adds the id.\<close>

record dns_record =
  rtype :: string
  name :: string
  data :: string
  ttl :: nat
  priority :: "nat option"

record dns_record_result = dns_record +
  record_id :: string

text \<open>\<^verbatim>\<open>Partial<DNSRecord>\<close>, the fields the providers read of it.\<close>

record dns_record_update =
  upd_name :: "string option"
  upd_data :: "string option"
  upd_ttl :: "nat option"
  upd_priority :: "nat option"

text \<open>A Cloudflare zone, a Cloudflare record, the Cloudflare response envelope
  \<^verbatim>\<open>{success, result, errors}\<close> (of \<^verbatim>\<open>errors\<close> only \<^verbatim>\<open>errors?.[0]?.message\<close> is read).\<close>

record cf_zone =
  zone_id :: string
  zone_name :: string
  zone_account_id :: "string option"

record cf_record =
  cf_id :: string
  cf_type :: string
  cf_name :: string
  cf_content :: string
  cf_ttl :: nat
  cf_priority :: "nat option"

record 'r cf_envelope =
  success :: bool
  result :: 'r
  errors0_message :: "string option"

text \<open>The body of a Cloudflare create request.\<close>

record cf_create_body =
  body_type :: string
  body_name :: string
  body_content :: string
  body_ttl :: nat
  body_priority :: "nat option"
  body_proxied :: "bool option"

text \<open>A DigitalOcean record (its id is a number, its name may be absent or empty) and the
  bodies of the create and update requests.\<close>

record do_record =
  do_id :: nat
  do_type :: string
  do_name :: "string option"
  do_data :: string
  do_ttl :: nat
  do_priority :: "nat option"

record do_create_body =
  do_body_type :: string
  do_body_name :: string
  do_body_data :: string
  do_body_ttl :: nat
  do_body_priority :: "nat option"

text \<open>An answer of the DNS-over-HTTPS resolver and its response.\<close>

record doh_answer =
  answer_type :: nat
  answer_data :: string

record doh_response =
  Status :: nat
  Answer :: "doh_answer list"

section \<open>The remote APIs\<close>

text \<open>The requests the clients issue; the type parameter of a listing is optional.\<close>

datatype request =
    CF_ZoneDetail string
  | CF_ZonesByName string
  | CF_ZonesPage nat
  | CF_AccountZones string string
  | CF_TokenVerify
  | CF_User
  | CF_CreateRecord string cf_create_body
  | CF_UpdateRecord string string dns_record_update
  | CF_DeleteRecord string string
  | CF_ListRecords string nat "string option"
  | DO_CreateRecord string do_create_body
  | DO_UpdateRecord string string dns_record_update
  | DO_DeleteRecord string string
  | DO_ListRecords string nat "string option"
  | DO_GetDomain string
  | DoH_Resolve string string

text \<open>
  The remote side: one oracle per endpoint, each given the requests issued before. An
  answer is \<open>Inl\<close> when the HTTP client rejects (any non-2xx status, a timeout, a transport
  failure) and \<open>Inr\<close> with the parsed body otherwise. Bodies have the shape the code reads.
\<close>

record network =
  zone_detail :: "request list \<Rightarrow> string \<Rightarrow> js_error + bool"
  zones_by_name :: "request list \<Rightarrow> string \<Rightarrow> js_error + cf_zone list cf_envelope"
  zones_page :: "request list \<Rightarrow> nat \<Rightarrow> js_error + cf_zone list cf_envelope"
  account_zones :: "request list \<Rightarrow> string \<Rightarrow> string \<Rightarrow> js_error + cf_zone list cf_envelope"
  token_verify :: "request list \<Rightarrow> js_error + bool"
  user :: "request list \<Rightarrow> js_error + string list option cf_envelope"
  cf_create :: "request list \<Rightarrow> string \<Rightarrow> cf_create_body \<Rightarrow> js_error + cf_record cf_envelope"
  cf_update :: "request list \<Rightarrow> string \<Rightarrow> string \<Rightarrow> dns_record_update
                  \<Rightarrow> js_error + cf_record cf_envelope"
  cf_delete :: "request list \<Rightarrow> string \<Rightarrow> string \<Rightarrow> js_error + unit cf_envelope"
  cf_list :: "request list \<Rightarrow> string \<Rightarrow> nat \<Rightarrow> string option \<Rightarrow> js_error + cf_record list cf_envelope"
  do_create :: "request list \<Rightarrow> string \<Rightarrow> do_create_body \<Rightarrow> js_error + do_record"
  do_update :: "request list \<Rightarrow> string \<Rightarrow> string \<Rightarrow> dns_record_update \<Rightarrow> js_error + do_record"
  do_delete :: "request list \<Rightarrow> string \<Rightarrow> string \<Rightarrow> js_error + unit"
  do_list :: "request list \<Rightarrow> string \<Rightarrow> nat \<Rightarrow> string option \<Rightarrow> js_error + do_record list"
  do_get_domain :: "request list \<Rightarrow> string \<Rightarrow> js_error + unit"
  doh_resolve :: "request list \<Rightarrow> string \<Rightarrow> string \<Rightarrow> js_error + doh_response"

text \<open>The state every client has: the requests it has issued, oldest first.\<close>

record http_client =
  calls :: "request list"

section \<open>The adaptive Cloudflare provider\<close>

text \<open>A cache entry (the timestamp \<^verbatim>\<open>discoveredAt\<close> is not modelled), the constructor's
  options with the two environment variables the class reads, and the object's fields.
  The zone cache is a map from root domains to entries: the source keeps it in a plain
  object, which also answers for the names it inherits from \<^verbatim>\<open>Object.prototype\<close>
  (\<^verbatim>\<open>constructor\<close>, \<^verbatim>\<open>toString\<close> and the like); a root domain of such a name is outside the
  model.\<close>

record zone_cache_entry =
  zoneId :: string
  cache_method :: string

record adaptive_config =
  options_accountId :: "string option"
  options_zoneId :: "string option"
  env_CLOUDFLARE_ACCOUNT_ID :: "string option"
  env_CLOUDFLARE_ZONE_ID :: "string option"

record adaptive_state = http_client +
  zoneCache :: "string \<rightharpoonup> zone_cache_entry"
  accountId :: "string option"
  discoveryAttempts :: nat

text \<open>The constructor: \<^verbatim>\<open>options.accountId || process.env.CLOUDFLARE_ACCOUNT_ID || null\<close>.\<close>

definition new_adaptive :: "adaptive_config \<Rightarrow> adaptive_state" where
  "new_adaptive cfg =
     \<lparr>calls = [], zoneCache = Map.empty,
      accountId = (let a = or_opt (options_accountId cfg) (env_CLOUDFLARE_ACCOUNT_ID cfg)
                   in if truthy a then a else None),
      discoveryAttempts = 0\<rparr>"

text \<open>Issuing a request appends it to the client's log.\<close>

definition issue :: "request \<Rightarrow> 'a http_client_scheme \<Rightarrow> 'a http_client_scheme" where
  "issue r st = st\<lparr>calls := calls st @ [r]\<rparr>"

definition cacheZoneId :: "string \<Rightarrow> string \<Rightarrow> string \<Rightarrow> adaptive_state \<Rightarrow> adaptive_state" where
  "cacheZoneId domain zid meth st =
     st\<lparr>zoneCache := (zoneCache st)(domain \<mapsto> \<lparr>zoneId = zid, cache_method = meth\<rparr>)\<rparr>"

text \<open>
  The strategies of \<^verbatim>\<open>discoverZoneId\<close>, one definition per block of the source. Each gives
  \<open>Some\<close> zone id when the block returns, \<open>None\<close> when control falls through to the next
  block, and the state after it.

  Strategy 1: the zone id of the options or of the environment, verified by a zone-detail
  request. A response that is not a success falls through; so does a 404; any other
  rejection caches the id and returns it.
\<close>

definition strategy1 ::
  "network \<Rightarrow> adaptive_config \<Rightarrow> string \<Rightarrow> adaptive_state \<Rightarrow> string option \<times> adaptive_state" where
  "strategy1 net cfg rootDomain st =
     (if truthy (options_zoneId cfg) \<or> truthy (env_CLOUDFLARE_ZONE_ID cfg) then
        let zid = or_str (options_zoneId cfg) (or_str (env_CLOUDFLARE_ZONE_ID cfg) []);
            st1 = issue (CF_ZoneDetail zid) st
        in (case zone_detail net (calls st) zid of
              Inr ok \<Rightarrow>
                if ok then (Some zid, cacheZoneId rootDomain zid ''provided'' st1)
                else (None, st1)
            | Inl error \<Rightarrow>
                if response_status error = Some 404 then (None, st1)
                else (Some zid, cacheZoneId rootDomain zid ''provided_unverified'' st1))
      else (None, st))"

text \<open>Strategy 2: the zones of that name; the first one, if the response is a success with
  at least one zone. A rejection is caught and falls through.\<close>

definition strategy2 :: "network \<Rightarrow> string \<Rightarrow> adaptive_state \<Rightarrow> string option \<times> adaptive_state" where
  "strategy2 net rootDomain st =
     (let st1 = issue (CF_ZonesByName rootDomain) st in
      case zones_by_name net (calls st) rootDomain of
        Inr response \<Rightarrow>
          if success response \<and> length (result response) > 0 then
            let zone = hd (result response)
            in (Some (zone_id zone), cacheZoneId rootDomain (zone_id zone) ''direct_lookup'' st1)
          else (None, st1)
      | Inl error \<Rightarrow> (None, st1))"

text \<open>Strategy 3: all zones (100 a page); an exact match of the root domain, else, when
  the domain is not its own root, the first zone whose name the domain ends with. The
  account id of the zone is kept when none is known.\<close>

definition strategy3 ::
  "network \<Rightarrow> string \<Rightarrow> string \<Rightarrow> adaptive_state \<Rightarrow> string option \<times> adaptive_state" where
  "strategy3 net domain rootDomain st =
     (let st1 = issue (CF_ZonesPage 100) st in
      case zones_page net (calls st) 100 of
        Inr response \<Rightarrow>
          if success response then
            let zones = result response;
                exact = find (\<lambda>z. zone_name z = rootDomain) zones;
                found = (if exact = None \<and> domain \<noteq> rootDomain
                         then find (\<lambda>z. endsWith domain (zone_name z)) zones
                         else exact)
            in (case found of
                  Some zone \<Rightarrow>
                    let st2 = (if truthy (zone_account_id zone) \<and> \<not> truthy (accountId st1)
                               then st1\<lparr>accountId := zone_account_id zone\<rparr> else st1)
                    in (Some (zone_id zone), cacheZoneId rootDomain (zone_id zone) ''full_list_scan'' st2)
                | None \<Rightarrow> (None, st1))
          else (None, st1)
      | Inl error \<Rightarrow> (None, st1))"

text \<open>Strategy 4: the zones of that name under the known account, if an account is known.\<close>

definition strategy4 :: "network \<Rightarrow> string \<Rightarrow> adaptive_state \<Rightarrow> string option \<times> adaptive_state" where
  "strategy4 net rootDomain st =
     (case accountId st of
        None \<Rightarrow> (None, st)
      | Some acc \<Rightarrow>
          if acc = [] then (None, st)
          else
            let st1 = issue (CF_AccountZones acc rootDomain) st in
            (case account_zones net (calls st) acc rootDomain of
               Inr response \<Rightarrow>
                 if success response \<and> length (result response) > 0 then
                   let zone = hd (result response)
                   in (Some (zone_id zone),
                       cacheZoneId rootDomain (zone_id zone) ''account_endpoint'' st1)
                 else (None, st1)
             | Inl error \<Rightarrow> (None, st1)))"

text \<open>Strategy 5, up to its recursive call: with no account known, verify the token, then
  read the user's accounts. \<open>True\<close> when the first account's id has been stored and the
  discovery is to be run again; \<open>False\<close> when control falls through to the final throw.\<close>

definition strategy5 :: "network \<Rightarrow> adaptive_state \<Rightarrow> bool \<times> adaptive_state" where
  "strategy5 net st =
     (if truthy (accountId st) then (False, st)
      else
        let st1 = issue CF_TokenVerify st in
        case token_verify net (calls st) of
          Inr ok \<Rightarrow>
            if ok then
              let st2 = issue CF_User st1 in
              (case user net (calls st1) of
                 Inr response \<Rightarrow>
                   if success response then
                     (case result response of
                        Some accounts \<Rightarrow>
                          if length accounts > 0
                          then (True, st2\<lparr>accountId := Some (hd accounts)\<rparr>)
                          else (False, st2)
                      | None \<Rightarrow> (False, st2))
                   else (False, st2)
               | Inl error \<Rightarrow> (False, st2))
            else (False, st1)
        | Inl error \<Rightarrow> (False, st1))"

text \<open>The error of the final throw.\<close>

definition zone_not_found :: "string \<Rightarrow> adaptive_state \<Rightarrow> js_error" where
  "zone_not_found rootDomain st =
     DNSProviderError
       (''Unable to find zone for '' @ rootDomain @ '' after trying '' @
        string_of_nat (discoveryAttempts st + 1) @ '' strategies. '' @
        ''Please ensure the domain is added to Cloudflare and the API token has proper permissions.'')
       404 (Some ''cloudflare'')"

text \<open>
  \<^verbatim>\<open>discoverZoneId\<close>. The source calls itself in strategy 5, so the model takes fuel, the
  depth of calls allowed: the outcome is \<open>None\<close> when the fuel runs out, \<open>Some (Inr id)\<close>
  when the zone id is returned, \<open>Some (Inl e)\<close> when \<open>e\<close> is thrown.
\<close>

fun discoverZoneId ::
  "nat \<Rightarrow> network \<Rightarrow> adaptive_config \<Rightarrow> string \<Rightarrow> adaptive_state
     \<Rightarrow> (js_error + string) option \<times> adaptive_state" where
  "discoverZoneId 0 net cfg domain st = (None, st)"
| "discoverZoneId (Suc fuel) net cfg domain st =
     (let rootDomain = extractRootDomain domain in
      case zoneCache st rootDomain of
        Some entry \<Rightarrow> (Some (Inr (zoneId entry)), st)
      | None \<Rightarrow>
      (case strategy1 net cfg rootDomain st of
        (Some zid, st1) \<Rightarrow> (Some (Inr zid), st1)
      | (None, st1) \<Rightarrow>
      (case strategy2 net rootDomain st1 of
        (Some zid, st2) \<Rightarrow> (Some (Inr zid), st2)
      | (None, st2) \<Rightarrow>
      (case strategy3 net domain rootDomain st2 of
        (Some zid, st3) \<Rightarrow> (Some (Inr zid), st3)
      | (None, st3) \<Rightarrow>
      (case strategy4 net rootDomain st3 of
        (Some zid, st4) \<Rightarrow> (Some (Inr zid), st4)
      | (None, st4) \<Rightarrow>
      (case strategy5 net st4 of
        (True, st5) \<Rightarrow> discoverZoneId fuel net cfg domain st5
      | (False, st5) \<Rightarrow> (Some (Inl (zone_not_found rootDomain st5)), st5)))))))"

text \<open>
  The body of the \<^verbatim>\<open>try\<close> of \<^verbatim>\<open>createRecord\<close>: the counter is set to zero, the zone is
  discovered, the record is posted under its full name, and a response that is not a
  success is thrown as a plain error.
\<close>

definition fullName :: "string \<Rightarrow> string \<Rightarrow> string" where
  "fullName domain nm =
     (if nm = ''@'' then domain
      else if str_includes nm domain then nm
      else nm @ ''.'' @ domain)"

definition result_of_cf :: "cf_record \<Rightarrow> dns_record_result" where
  "result_of_cf r =
     \<lparr>rtype = cf_type r, name = cf_name r, data = cf_content r, ttl = cf_ttl r,
      priority = cf_priority r, record_id = cf_id r\<rparr>"

definition createRecord_try ::
  "nat \<Rightarrow> network \<Rightarrow> adaptive_config \<Rightarrow> string \<Rightarrow> dns_record \<Rightarrow> adaptive_state
     \<Rightarrow> (js_error + dns_record_result) option \<times> adaptive_state" where
  "createRecord_try fuel net cfg domain record st =
     (case discoverZoneId fuel net cfg domain (st\<lparr>discoveryAttempts := 0\<rparr>) of
        (None, st1) \<Rightarrow> (None, st1)
      | (Some (Inl error), st1) \<Rightarrow> (Some (Inl error), st1)
      | (Some (Inr zid), st1) \<Rightarrow>
          let body = \<lparr>body_type = rtype record, body_name = fullName domain (name record),
                      body_content = data record,
                      body_ttl = (if ttl record = 0 then 3600 else ttl record),
                      body_priority = priority record, body_proxied = Some False\<rparr>;
              st2 = issue (CF_CreateRecord zid body) st1
          in (case cf_create net (calls st1) zid body of
                Inl error \<Rightarrow> (Some (Inl error), st2)
              | Inr response \<Rightarrow>
                  if \<not> success response
                  then (Some (Inl (Error (or_str (errors0_message response)
                                            ''Failed to create DNS record''))), st2)
                  else (Some (Inr (result_of_cf (result response))), st2)))"

text \<open>The error that the \<^verbatim>\<open>catch\<close> of \<^verbatim>\<open>createRecord\<close> throws for a caught error.\<close>

definition createRecord_rethrown :: "js_error \<Rightarrow> js_error" where
  "createRecord_rethrown error =
     DNSProviderError
       (''Failed to create DNS record: '' @ or_str (response_message error) (message error))
       (or_nat (response_status error) 500) (Some ''cloudflare'')"

text \<open>
  \<^verbatim>\<open>createRecord\<close> with its \<^verbatim>\<open>catch\<close>: an error whose message includes \<^verbatim>\<open>zone\<close>, caught while
  the counter is below 2, increments the counter, empties the cache and calls
  \<^verbatim>\<open>createRecord\<close> again; any other error is rethrown as a \<^verbatim>\<open>DNSProviderError\<close>. The call
  is recursive, so the model takes fuel as \<open>discoverZoneId\<close> does: each call passes its own
  fuel to the discovery it makes and one unit less to the retry.
\<close>

fun createRecord ::
  "nat \<Rightarrow> network \<Rightarrow> adaptive_config \<Rightarrow> string \<Rightarrow> dns_record \<Rightarrow> adaptive_state
     \<Rightarrow> (js_error + dns_record_result) option \<times> adaptive_state" where
  "createRecord 0 net cfg domain record st = (None, st)"
| "createRecord (Suc fuel) net cfg domain record st =
     (case createRecord_try (Suc fuel) net cfg domain record st of
        (None, st1) \<Rightarrow> (None, st1)
      | (Some (Inr r), st1) \<Rightarrow> (Some (Inr r), st1)
      | (Some (Inl error), st1) \<Rightarrow>
          if str_includes (message error) ''zone'' \<and> discoveryAttempts st1 < 2
          then createRecord fuel net cfg domain record
                 (st1\<lparr>discoveryAttempts := discoveryAttempts st1 + 1, zoneCache := Map.empty\<rparr>)
          else (Some (Inl (createRecord_rethrown error)), st1))"

text \<open>\<^verbatim>\<open>updateRecord\<close> and \<^verbatim>\<open>deleteRecord\<close>: discover the zone, send the request, throw on a
  response that is not a success; every error is rethrown as a \<^verbatim>\<open>DNSProviderError\<close> whose
  status is that of the error's response, 500 when it has none. In the update only the
  fields present are sent (\<^verbatim>\<open>data\<close> as \<^verbatim>\<open>content\<close>).\<close>

definition adaptive_wrap :: "string \<Rightarrow> js_error \<Rightarrow> js_error" where
  "adaptive_wrap what error =
     DNSProviderError (what @ or_str (response_message error) (message error))
       (or_nat (response_status error) 500) (Some ''cloudflare'')"

definition updateRecord ::
  "nat \<Rightarrow> network \<Rightarrow> adaptive_config \<Rightarrow> string \<Rightarrow> string \<Rightarrow> dns_record_update
     \<Rightarrow> adaptive_state \<Rightarrow> (js_error + dns_record_result) option \<times> adaptive_state" where
  "updateRecord fuel net cfg domain recordId record st =
     (case discoverZoneId fuel net cfg domain st of
        (None, st1) \<Rightarrow> (None, st1)
      | (Some (Inl error), st1) \<Rightarrow>
          (Some (Inl (adaptive_wrap ''Failed to update DNS record: '' error)), st1)
      | (Some (Inr zid), st1) \<Rightarrow>
          let st2 = issue (CF_UpdateRecord zid recordId record) st1
          in (case cf_update net (calls st1) zid recordId record of
                Inl error \<Rightarrow>
                  (Some (Inl (adaptive_wrap ''Failed to update DNS record: '' error)), st2)
              | Inr response \<Rightarrow>
                  if \<not> success response
                  then (Some (Inl (adaptive_wrap ''Failed to update DNS record: ''
                                     (Error (or_str (errors0_message response)
                                               ''Failed to update DNS record'')))), st2)
                  else (Some (Inr (result_of_cf (result response))), st2)))"

definition deleteRecord ::
  "nat \<Rightarrow> network \<Rightarrow> adaptive_config \<Rightarrow> string \<Rightarrow> string
     \<Rightarrow> adaptive_state \<Rightarrow> (js_error + unit) option \<times> adaptive_state" where
  "deleteRecord fuel net cfg domain recordId st =
     (case discoverZoneId fuel net cfg domain st of
        (None, st1) \<Rightarrow> (None, st1)
      | (Some (Inl error), st1) \<Rightarrow>
          (Some (Inl (adaptive_wrap ''Failed to delete DNS record: '' error)), st1)
      | (Some (Inr zid), st1) \<Rightarrow>
          let st2 = issue (CF_DeleteRecord zid recordId) st1
          in (case cf_delete net (calls st1) zid recordId of
                Inl error \<Rightarrow>
                  (Some (Inl (adaptive_wrap ''Failed to delete DNS record: '' error)), st2)
              | Inr response \<Rightarrow>
                  if \<not> success response
                  then (Some (Inl (adaptive_wrap ''Failed to delete DNS record: ''
                                     (Error (or_str (errors0_message response)
                                               ''Failed to delete DNS record'')))), st2)
                  else (Some (Inr ()), st2)))"

text \<open>\<^verbatim>\<open>listRecords\<close>: the type parameter is sent whenever \<^verbatim>\<open>type\<close> is truthy.\<close>

definition listRecords ::
  "nat \<Rightarrow> network \<Rightarrow> adaptive_config \<Rightarrow> string \<Rightarrow> string option \<Rightarrow> adaptive_state
     \<Rightarrow> (js_error + dns_record_result list) option \<times> adaptive_state" where
  "listRecords fuel net cfg domain type st =
     (case discoverZoneId fuel net cfg domain st of
        (None, st1) \<Rightarrow> (None, st1)
      | (Some r, st1) \<Rightarrow>
          let wrap = (\<lambda>error. DNSProviderError
                        (''Failed to list DNS records: '' @
                         or_str (response_message error) (message error))
                        (or_nat (response_status error) 500) (Some ''cloudflare''))
          in (case r of
                Inl error \<Rightarrow> (Some (Inl (wrap error)), st1)
              | Inr zid \<Rightarrow>
                  let params_type = (if truthy type then type else None);
                      st2 = issue (CF_ListRecords zid 100 params_type) st1
                  in (case cf_list net (calls st1) zid 100 params_type of
                        Inl error \<Rightarrow> (Some (Inl (wrap error)), st2)
                      | Inr response \<Rightarrow>
                          if \<not> success response
                          then (Some (Inl (wrap (Error (or_str (errors0_message response)
                                                          ''Failed to list DNS records'')))), st2)
                          else (Some (Inr (map result_of_cf (result response))), st2))))"

text \<open>\<^verbatim>\<open>verifyDomainOwnership\<close>: true when the discovery returns, false on any error.\<close>

definition verifyDomainOwnership ::
  "nat \<Rightarrow> network \<Rightarrow> adaptive_config \<Rightarrow> string \<Rightarrow> adaptive_state
     \<Rightarrow> (js_error + bool) option \<times> adaptive_state" where
  "verifyDomainOwnership fuel net cfg domain st =
     (case discoverZoneId fuel net cfg domain st of
        (None, st1) \<Rightarrow> (None, st1)
      | (Some (Inr zid), st1) \<Rightarrow> (Some (Inr True), st1)
      | (Some (Inl error), st1) \<Rightarrow> (Some (Inr False), st1))"

text \<open>A network on which every request is rejected without a response (the host is
  unreachable): the error has a message and no status.\<close>

definition network_error :: js_error where
  "network_error = Error ''Network Error''"

definition offline :: network where
  "offline =
     \<lparr>zone_detail = (\<lambda>h z. Inl network_error),
      zones_by_name = (\<lambda>h n. Inl network_error),
      zones_page = (\<lambda>h n. Inl network_error),
      account_zones = (\<lambda>h a n. Inl network_error),
      token_verify = (\<lambda>h. Inl network_error),
      user = (\<lambda>h. Inl network_error),
      cf_create = (\<lambda>h z b. Inl network_error),
      cf_update = (\<lambda>h z i b. Inl network_error),
      cf_delete = (\<lambda>h z i. Inl network_error),
      cf_list = (\<lambda>h z n t. Inl network_error),
      do_create = (\<lambda>h d b. Inl network_error),
      do_update = (\<lambda>h d i b. Inl network_error),
      do_delete = (\<lambda>h d i. Inl network_error),
      do_list = (\<lambda>h d n t. Inl network_error),
      do_get_domain = (\<lambda>h d. Inl network_error),
      doh_resolve = (\<lambda>h d t. Inl network_error)\<rparr>"

definition no_config :: adaptive_config where
  "no_config = \<lparr>options_accountId = None, options_zoneId = None,
                 env_CLOUDFLARE_ACCOUNT_ID = None, env_CLOUDFLARE_ZONE_ID = None\<rparr>"

section \<open>The plain Cloudflare provider\<close>

text \<open>
  \<^verbatim>\<open>getZoneId\<close>: the zones named as the root domain; the first one's id. With no zone the
  code lists the account's zones for its log (50 a page, the outcome ignored) and throws
  \<^verbatim>\<open>Zone not found\<close>. Every error is rethrown as a \<^verbatim>\<open>DNSProviderError\<close> that carries the
  original message.
\<close>

definition cf_getZoneId :: "network \<Rightarrow> string \<Rightarrow> http_client \<Rightarrow> (js_error + string) \<times> http_client" where
  "cf_getZoneId net domain st =
     (let rootDomain = cf_extractRootDomain domain;
          wrap = (\<lambda>error. DNSProviderError
                    (''Failed to get zone ID for '' @ domain @ '': '' @ message error)
                    (or_nat (response_status error) 500) (Some ''cloudflare''));
          st1 = issue (CF_ZonesByName rootDomain) st
      in case zones_by_name net (calls st) rootDomain of
           Inl error \<Rightarrow> (Inl (wrap error), st1)
         | Inr response \<Rightarrow>
             if \<not> success response
             then (Inl (wrap (Error (or_str (errors0_message response)
                                       ''Unknown Cloudflare API error''))), st1)
             else if length (result response) = 0
             then (Inl (wrap (Error (''Zone not found for domain: '' @ rootDomain @
                      ''. Make sure the domain is added to your Cloudflare account.''))),
                   issue (CF_ZonesPage 50) st1)
             else (Inr (zone_id (hd (result response))), st1))"

definition cf_verifyDomainOwnership ::
  "network \<Rightarrow> string \<Rightarrow> http_client \<Rightarrow> (js_error + bool) \<times> http_client" where
  "cf_verifyDomainOwnership net domain st =
     (case cf_getZoneId net domain st of
        (Inr zid, st1) \<Rightarrow> (Inr True, st1)
      | (Inl error, st1) \<Rightarrow>
          if str_includes (message error) ''Zone not found'' then (Inr False, st1)
          else (Inl (DNSProviderError (''Failed to verify domain ownership: '' @ message error)
                       500 (Some ''cloudflare'')), st1))"

definition result_of_cf_plain :: "cf_record \<Rightarrow> dns_record_result" where
  "result_of_cf_plain r =
     \<lparr>rtype = cf_type r, name = cf_name r, data = cf_content r, ttl = cf_ttl r,
      priority = or_undefined (cf_priority r), record_id = cf_id r\<rparr>"

text \<open>\<^verbatim>\<open>listRecords\<close>: the type parameter is sent when \<^verbatim>\<open>type\<close> is truthy and is not \<^verbatim>\<open>ALL\<close>.\<close>

definition cf_listRecords ::
  "network \<Rightarrow> string \<Rightarrow> string option \<Rightarrow> http_client
     \<Rightarrow> (js_error + dns_record_result list) \<times> http_client" where
  "cf_listRecords net domain type st =
     (let wrap = (\<lambda>error. DNSProviderError
                    (''Failed to list DNS records: '' @
                     or_str (response_message error) (message error))
                    (or_nat (response_status error) 500) (Some ''cloudflare''))
      in case cf_getZoneId net domain st of
           (Inl error, st1) \<Rightarrow> (Inl (wrap error), st1)
         | (Inr zid, st1) \<Rightarrow>
             let params_type = (if truthy type \<and> type \<noteq> Some ''ALL'' then type else None);
                 st2 = issue (CF_ListRecords zid 100 params_type) st1
             in (case cf_list net (calls st1) zid 100 params_type of
                   Inl error \<Rightarrow> (Inl (wrap error), st2)
                 | Inr response \<Rightarrow>
                     if \<not> success response
                     then (Inl (wrap (Error (or_str (errors0_message response)
                                               ''Unknown Cloudflare API error''))), st2)
                     else (Inr (map result_of_cf_plain (result response)), st2)))"

subsection \<open>Propagation check\<close>

text \<open>\<^verbatim>\<open>getRecordTypeNumber\<close>: the numeric type of a record type, 1 for an unknown one. The
  source's table is a plain object; a record type that is a name inherited from
  \<^verbatim>\<open>Object.prototype\<close> is outside the model.\<close>

definition getRecordTypeNumber :: "string \<Rightarrow> nat" where
  "getRecordTypeNumber recordType =
     or_nat (map_of [(''A'', 1), (''AAAA'', 28), (''CNAME'', 5), (''MX'', 15), (''TXT'', 16)] recordType) 1"

text \<open>\<^verbatim>\<open>queryDNSServer\<close>: one resolver query (the server is not part of the request). The
  data of the first answer of the requested type, else an error; a rejected request is
  rethrown.\<close>

definition queryDNSServer ::
  "network \<Rightarrow> string \<Rightarrow> string \<Rightarrow> string \<Rightarrow> http_client \<Rightarrow> (js_error + string) \<times> http_client" where
  "queryDNSServer net domain recordType server st =
     (let st1 = issue (DoH_Resolve domain recordType) st;
          no_record = Error (''No '' @ recordType @ '' record found for '' @ domain)
      in case doh_resolve net (calls st) domain recordType of
           Inl error \<Rightarrow> (Inl error, st1)
         | Inr response \<Rightarrow>
             if Status response = 0 \<and> length (Answer response) > 0 then
               (case find (\<lambda>a. answer_type a = getRecordTypeNumber recordType) (Answer response) of
                  Some answer \<Rightarrow> (Inr (answer_data answer), st1)
                | None \<Rightarrow> (Inl no_record, st1))
             else (Inl no_record, st1))"

definition dnsServers :: "string list" where
  "dnsServers = [''8.8.8.8'', ''1.1.1.1'', ''208.67.222.222'']"

text \<open>\<^verbatim>\<open>Promise.allSettled(dnsServers.map(...))\<close>: one query per server, issued in the order
  of the list; the outcomes in that order, a rejected one as \<open>Inl\<close>.\<close>

fun allSettled_queries ::
  "network \<Rightarrow> string \<Rightarrow> string \<Rightarrow> string list \<Rightarrow> http_client
     \<Rightarrow> (js_error + string) list \<times> http_client" where
  "allSettled_queries net domain recordType [] st = ([], st)"
| "allSettled_queries net domain recordType (server # servers) st =
     (case queryDNSServer net domain recordType server st of
        (r, st1) \<Rightarrow>
          (case allSettled_queries net domain recordType servers st1 of
             (rs, st2) \<Rightarrow> (r # rs, st2)))"

text \<open>The values of the fulfilled outcomes
  (\<^verbatim>\<open>.filter(result => result.status === 'fulfilled').map(result => result.value)\<close>), and
  those of them that equal the expected value.\<close>

fun fulfilled_values :: "(js_error + 'a) list \<Rightarrow> 'a list" where
  "fulfilled_values [] = []"
| "fulfilled_values (Inr v # rs) = v # fulfilled_values rs"
| "fulfilled_values (Inl error # rs) = fulfilled_values rs"

definition successfulChecks :: "(js_error + string) list \<Rightarrow> string \<Rightarrow> string list" where
  "successfulChecks propagationChecks expectedValue =
     filter (\<lambda>v. v = expectedValue) (fulfilled_values propagationChecks)"

text \<open>The body of the \<^verbatim>\<open>try\<close> of \<^verbatim>\<open>checkPropagation\<close>, and the function with its \<^verbatim>\<open>catch\<close>,
  which answers false.\<close>

definition checkPropagation_try ::
  "network \<Rightarrow> string \<Rightarrow> string \<Rightarrow> string \<Rightarrow> http_client \<Rightarrow> (js_error + bool) \<times> http_client" where
  "checkPropagation_try net domain recordType expectedValue st =
     (case allSettled_queries net domain recordType dnsServers st of
        (propagationChecks, st1) \<Rightarrow>
          (Inr (length (successfulChecks propagationChecks expectedValue) \<ge> 2), st1))"

definition catch_false :: "js_error + bool \<Rightarrow> bool" where
  "catch_false r = (case r of Inr propagated \<Rightarrow> propagated | Inl error \<Rightarrow> False)"

definition checkPropagation ::
  "network \<Rightarrow> string \<Rightarrow> string \<Rightarrow> string \<Rightarrow> http_client \<Rightarrow> bool \<times> http_client" where
  "checkPropagation net domain recordType expectedValue st =
     (case checkPropagation_try net domain recordType expectedValue st of
        (r, st1) \<Rightarrow> (catch_false r, st1))"

section \<open>The DigitalOcean provider\<close>

text \<open>The root name \<^verbatim>\<open>@\<close> is sent as the empty string; an absent or empty name of a
  returned record is read as \<^verbatim>\<open>@\<close>. The record id is a natural number rendered exactly:
  the source holds it as a double, so ids from \<open>2^53\<close> on are outside the model.\<close>

definition do_payload_name :: "string \<Rightarrow> string" where
  "do_payload_name nm = (if nm = ''@'' then [] else nm)"

definition result_of_do :: "do_record \<Rightarrow> dns_record_result" where
  "result_of_do r =
     \<lparr>rtype = do_type r, name = or_str (do_name r) ''@'', data = do_data r, ttl = do_ttl r,
      priority = or_undefined (do_priority r), record_id = string_of_nat (do_id r)\<rparr>"

definition do_wrap :: "string \<Rightarrow> js_error \<Rightarrow> js_error" where
  "do_wrap what error =
     DNSProviderError (what @ or_str (response_message error) (message error))
       (or_nat (response_status error) 500) (Some ''digitalocean'')"

definition do_create_body_of :: "dns_record \<Rightarrow> do_create_body" where
  "do_create_body_of record =
     \<lparr>do_body_type = rtype record, do_body_name = do_payload_name (name record),
      do_body_data = data record,
      do_body_ttl = (if ttl record = 0 then 1800 else ttl record),
      do_body_priority = or_undefined (priority record)\<rparr>"

definition do_createRecord ::
  "network \<Rightarrow> string \<Rightarrow> dns_record \<Rightarrow> http_client \<Rightarrow> (js_error + dns_record_result) \<times> http_client" where
  "do_createRecord net domain record st =
     (let body = do_create_body_of record;
          st1 = issue (DO_CreateRecord domain body) st
      in case do_create net (calls st) domain body of
           Inl error \<Rightarrow> (Inl (do_wrap ''Failed to create DNS record: '' error), st1)
         | Inr doRecord \<Rightarrow> (Inr (result_of_do doRecord), st1))"

text \<open>Only the fields present in the update are sent.\<close>

definition do_update_body_of :: "dns_record_update \<Rightarrow> dns_record_update" where
  "do_update_body_of record =
     \<lparr>upd_name = map_option do_payload_name (upd_name record), upd_data = upd_data record,
      upd_ttl = upd_ttl record, upd_priority = upd_priority record\<rparr>"

definition do_updateRecord ::
  "network \<Rightarrow> string \<Rightarrow> string \<Rightarrow> dns_record_update \<Rightarrow> http_client
     \<Rightarrow> (js_error + dns_record_result) \<times> http_client" where
  "do_updateRecord net domain recordId record st =
     (let updateData = do_update_body_of record;
          st1 = issue (DO_UpdateRecord domain recordId updateData) st
      in case do_update net (calls st) domain recordId updateData of
           Inl error \<Rightarrow> (Inl (do_wrap ''Failed to update DNS record: '' error), st1)
         | Inr doRecord \<Rightarrow> (Inr (result_of_do doRecord), st1))"

definition do_deleteRecord ::
  "network \<Rightarrow> string \<Rightarrow> string \<Rightarrow> http_client \<Rightarrow> (js_error + unit) \<times> http_client" where
  "do_deleteRecord net domain recordId st =
     (let st1 = issue (DO_DeleteRecord domain recordId) st
      in case do_delete net (calls st) domain recordId of
           Inl error \<Rightarrow> (Inl (do_wrap ''Failed to delete DNS record: '' error), st1)
         | Inr u \<Rightarrow> (Inr (), st1))"

definition do_listRecords ::
  "network \<Rightarrow> string \<Rightarrow> string option \<Rightarrow> http_client
     \<Rightarrow> (js_error + dns_record_result list) \<times> http_client" where
  "do_listRecords net domain type st =
     (let params_type = (if truthy type \<and> type \<noteq> Some ''ALL'' then type else None);
          st1 = issue (DO_ListRecords domain 200 params_type) st
      in case do_list net (calls st) domain 200 params_type of
           Inl error \<Rightarrow> (Inl (do_wrap ''Failed to list DNS records: '' error), st1)
         | Inr domain_records \<Rightarrow> (Inr (map result_of_do domain_records), st1))"

definition do_verifyDomainOwnership ::
  "network \<Rightarrow> string \<Rightarrow> http_client \<Rightarrow> (js_error + bool) \<times> http_client" where
  "do_verifyDomainOwnership net domain st =
     (let st1 = issue (DO_GetDomain domain) st
      in case do_get_domain net (calls st) domain of
           Inr response \<Rightarrow> (Inr True, st1)
         | Inl error \<Rightarrow>
             if response_status error = Some 404 then (Inr False, st1)
             else (Inl (do_wrap ''Failed to verify domain ownership: '' error), st1))"

section \<open>The service over the providers\<close>

text \<open>
  \<^verbatim>\<open>DNSService\<close> works on any implementation of the interface \<^verbatim>\<open>DNSProvider\<close>: here a
  record of operations on a provider state \<open>'p\<close>. An operation gives \<open>None\<close> when the
  provider's call does not return, and then the service's call does not return either.
\<close>

record 'p provider_ops =
  p_createRecord :: "string \<Rightarrow> dns_record \<Rightarrow> 'p \<Rightarrow> (js_error + dns_record_result) option \<times> 'p"
  p_updateRecord ::
    "string \<Rightarrow> string \<Rightarrow> dns_record_update \<Rightarrow> 'p \<Rightarrow> (js_error + dns_record_result) option \<times> 'p"
  p_deleteRecord :: "string \<Rightarrow> string \<Rightarrow> 'p \<Rightarrow> (js_error + unit) option \<times> 'p"
  p_listRecords ::
    "string \<Rightarrow> string option \<Rightarrow> 'p \<Rightarrow> (js_error + dns_record_result list) option \<times> 'p"

text \<open>The service's field \<^verbatim>\<open>providers\<close>: the provider instances by cache key, the provider
  name and the last ten characters of the token.\<close>

record 'p dns_service =
  providers :: "string \<rightharpoonup> 'p"

definition cacheKey :: "string \<Rightarrow> string \<Rightarrow> string" where
  "cacheKey provider jwtToken = provider @ ''_'' @ slice_last 10 jwtToken"

text \<open>
  \<^verbatim>\<open>getDNSProvider\<close>: the cached instance, else a new one, which is cached. Making the new
  instance (the credentials and the choice of the class) is the parameter \<open>construct\<close>; it
  may throw. The model returns the key with the instance, and \<open>store\<close> writes the state of
  an instance back after a call on it.
\<close>

definition store :: "string \<Rightarrow> 'p \<Rightarrow> 'p dns_service \<Rightarrow> 'p dns_service" where
  "store key dnsProvider svc = svc\<lparr>providers := (providers svc)(key \<mapsto> dnsProvider)\<rparr>"

definition getDNSProvider ::
  "(string \<Rightarrow> string \<Rightarrow> js_error + 'p) \<Rightarrow> string \<Rightarrow> string \<Rightarrow> 'p dns_service
     \<Rightarrow> (js_error + string \<times> 'p) \<times> 'p dns_service" where
  "getDNSProvider construct provider jwtToken svc =
     (let key = cacheKey provider jwtToken in
      case providers svc key of
        Some dnsProvider \<Rightarrow> (Inr (key, dnsProvider), svc)
      | None \<Rightarrow>
          (case construct provider jwtToken of
             Inl error \<Rightarrow> (Inl error, svc)
           | Inr dnsProvider \<Rightarrow>
               (Inr (key, dnsProvider), store key dnsProvider svc)))"

text \<open>The test both \<^verbatim>\<open>validateDomain\<close> and \<^verbatim>\<open>listRecords\<close> make on a caught error.\<close>

definition not_found_class :: "js_error \<Rightarrow> bool" where
  "not_found_class error =
     (statusCode error = Some 404 \<or> str_includes (message error) ''not found'' \<or>
      str_includes (message error) ''does not exist'')"

text \<open>\<^verbatim>\<open>validateDomain\<close>: list the domain's records (no type); true when the listing
  returns, false when it throws an error of the not-found class, which is otherwise
  rethrown.\<close>

definition validateDomain ::
  "(string \<Rightarrow> string \<Rightarrow> js_error + 'p) \<Rightarrow> 'p provider_ops \<Rightarrow> string \<Rightarrow> string \<Rightarrow> string
     \<Rightarrow> 'p dns_service \<Rightarrow> (js_error + bool) option \<times> 'p dns_service" where
  "validateDomain construct ops domain provider jwtToken svc =
     (case getDNSProvider construct provider jwtToken svc of
        (Inl error, svc1) \<Rightarrow> (Some (Inl error), svc1)
      | (Inr (key, dnsProvider), svc1) \<Rightarrow>
          (case p_listRecords ops domain None dnsProvider of
             (None, p1) \<Rightarrow> (None, store key p1 svc1)
           | (Some (Inr records), p1) \<Rightarrow> (Some (Inr True), store key p1 svc1)
           | (Some (Inl error), p1) \<Rightarrow>
               if not_found_class error then (Some (Inr False), store key p1 svc1)
               else (Some (Inl error), store key p1 svc1)))"





text \<open>\<^verbatim>\<open>DNSService.listRecords\<close>: get the provider and list; an error of the not-found class
  becomes the empty list, any other is rethrown.\<close>

definition svc_listRecords ::
  "(string \<Rightarrow> string \<Rightarrow> js_error + 'p) \<Rightarrow> 'p provider_ops \<Rightarrow> string \<Rightarrow> string \<Rightarrow> string
     \<Rightarrow> string option
     \<Rightarrow> 'p dns_service \<Rightarrow> (js_error + dns_record_result list) option \<times> 'p dns_service" where
  "svc_listRecords construct ops domain provider jwtToken recordType svc =
     (case getDNSProvider construct provider jwtToken svc of
        (Inl error, svc1) \<Rightarrow> (Some (Inl error), svc1)
      | (Inr (key, dnsProvider), svc1) \<Rightarrow>
          (case p_listRecords ops domain recordType dnsProvider of
             (None, p1) \<Rightarrow> (None, store key p1 svc1)
           | (Some (Inr records), p1) \<Rightarrow> (Some (Inr records), store key p1 svc1)
           | (Some (Inl error), p1) \<Rightarrow>
               if not_found_class error then (Some (Inr []), store key p1 svc1)
               else (Some (Inl error), store key p1 svc1)))"

text \<open>The DigitalOcean provider as an implementation of the interface.\<close>

definition returned :: "'r \<times> 'p \<Rightarrow> 'r option \<times> 'p" where
  "returned x = (Some (fst x), snd x)"

definition digitalocean_ops :: "network \<Rightarrow> http_client provider_ops" where
  "digitalocean_ops net =
     \<lparr>p_createRecord = (\<lambda>domain record st. returned (do_createRecord net domain record st)),
      p_updateRecord = (\<lambda>domain recordId record st.
                          returned (do_updateRecord net domain recordId record st)),
      p_deleteRecord = (\<lambda>domain recordId st. returned (do_deleteRecord net domain recordId st)),
      p_listRecords = (\<lambda>domain type st. returned (do_listRecords net domain type st))\<rparr>"

text \<open>The adaptive provider as an implementation of the interface, with the fuel of its
  recursive calls, and the instance \<^verbatim>\<open>getDNSProvider\<close> makes when the environment gives
  neither a zone id nor an account id.\<close>

definition adaptive_ops :: "nat \<Rightarrow> network \<Rightarrow> adaptive_config \<Rightarrow> adaptive_state provider_ops" where
  "adaptive_ops fuel net cfg =
     \<lparr>p_createRecord = createRecord fuel net cfg,
      p_updateRecord = updateRecord fuel net cfg,
      p_deleteRecord = deleteRecord fuel net cfg,
      p_listRecords = listRecords fuel net cfg\<rparr>"

definition construct_adaptive :: "string \<Rightarrow> string \<Rightarrow> js_error + adaptive_state" where
  "construct_adaptive provider jwtToken = Inr (new_adaptive no_config)"

text \<open>A DigitalOcean account that answers 404 to every request: it has no domain.\<close>

definition not_found_404 :: js_error where
  "not_found_404 =
     \<lparr>message = ''Request failed with status code 404'', response_status = Some 404,
      response_message = Some ''The resource you were accessing could not be found.'',
      statusCode = None, error_provider = None\<rparr>"

definition no_domains :: network where
  "no_domains =
     offline\<lparr>do_create := (\<lambda>h d b. Inl not_found_404),
             do_update := (\<lambda>h d i b. Inl not_found_404),
             do_delete := (\<lambda>h d i. Inl not_found_404),
             do_list := (\<lambda>h d n t. Inl not_found_404),
             do_get_domain := (\<lambda>h d. Inl not_found_404)\<rparr>"

definition new_client :: http_client where
  "new_client = \<lparr>calls = []\<rparr>"

definition construct_digitalocean :: "string \<Rightarrow> string \<Rightarrow> js_error + http_client" where
  "construct_digitalocean provider jwtToken = Inr new_client"

definition new_service :: "'p dns_service" where
  "new_service = \<lparr>providers = Map.empty\<rparr>"

section \<open>Networks and inputs of the examples\<close>

text \<open>Resolver networks: an answer of type A to the first two queries, or to the first one
  only, and a timeout after that.\<close>

definition a_answer :: doh_response where
  "a_answer = \<lparr>Status = 0, Answer = [\<lparr>answer_type = 1, answer_data = ''203.0.113.5''\<rparr>]\<rparr>"

definition timeout_error :: js_error where
  "timeout_error = Error ''timeout of 5000ms exceeded''"

definition two_then_timeout :: network where
  "two_then_timeout =
     offline\<lparr>doh_resolve := (\<lambda>h d t. if length h < 2 then Inr a_answer else Inl timeout_error)\<rparr>"

definition one_then_timeout :: network where
  "one_then_timeout =
     offline\<lparr>doh_resolve := (\<lambda>h d t. if length h < 1 then Inr a_answer else Inl timeout_error)\<rparr>"

text \<open>A DigitalOcean account that creates what it is sent and answers with the record as
  stored, and a record for the root name.\<close>

definition echo_create :: network where
  "echo_create =
     offline\<lparr>do_create := (\<lambda>h d b. Inr \<lparr>do_id = 7, do_type = do_body_type b,
                 do_name = Some (do_body_name b), do_data = do_body_data b,
                 do_ttl = do_body_ttl b, do_priority = do_body_priority b\<rparr>)\<rparr>"

definition root_record :: dns_record where
  "root_record = \<lparr>rtype = ''A'', name = ''@'', data = ''203.0.113.5'', ttl = 0, priority = None\<rparr>"

text \<open>A Cloudflare account with one zone for whatever name is asked, and no records.\<close>

definition one_zone :: network where
  "one_zone =
     offline\<lparr>zones_by_name := (\<lambda>h n. Inr \<lparr>success = True,
                  result = [\<lparr>zone_id = ''zone-1'', zone_name = n, zone_account_id = None\<rparr>],
                  errors0_message = None\<rparr>),
             cf_list := (\<lambda>h z n t. Inr \<lparr>success = True, result = [], errors0_message = None\<rparr>)\<rparr>"

text \<open>The recursive equations of the two fuelled functions are unfolded by name only.\<close>

declare discoverZoneId.simps [simp del] createRecord.simps [simp del]

text \<open>The zone cache holds this zone id for this root domain.\<close>

definition cached :: "string \<Rightarrow> string \<Rightarrow> adaptive_state \<Rightarrow> bool" where
  "cached rootDomain zid st = (map_option zoneId (zoneCache st rootDomain) = Some zid)"

text \<open>The log of requests of the second state starts with the log of the first.\<close>

definition extends :: "adaptive_state \<Rightarrow> adaptive_state \<Rightarrow> bool" where
  "extends st st' = (take (length (calls st)) (calls st') = calls st)"

text \<open>A configuration with a zone id in the options; an HTTP error of a given status; a
  network that answers 403 to the zone-detail request and is unreachable otherwise; and an
  account that answers 404 to it and has a zone of the name asked.\<close>

definition with_zone_id :: adaptive_config where
  "with_zone_id = no_config\<lparr>options_zoneId := Some ''zone-9''\<rparr>"

definition status_error :: "nat \<Rightarrow> js_error" where
  "status_error code =
     \<lparr>message = ''Request failed with status code '' @ string_of_nat code,
      response_status = Some code, response_message = None, statusCode = None,
      error_provider = None\<rparr>"

definition forbidden :: network where
  "forbidden = offline\<lparr>zone_detail := (\<lambda>h z. Inl (status_error 403))\<rparr>"

definition zone_gone :: network where
  "zone_gone = one_zone\<lparr>zone_detail := (\<lambda>h z. Inl (status_error 404))\<rparr>"

text \<open>A Cloudflare account with no zone.\<close>

definition empty_account :: network where
  "empty_account =
     offline\<lparr>zones_by_name := (\<lambda>h n. Inr \<lparr>success = True, result = [], errors0_message = None\<rparr>)\<rparr>"

text \<open>A Cloudflare account that answers every request, has one account id and no zone
  at all; and a Cloudflare API that answers the lookup by name with a failure envelope.\<close>

definition no_zones :: "cf_zone list cf_envelope" where
  "no_zones = \<lparr>success = True, result = [], errors0_message = None\<rparr>"

definition no_zone_account :: network where
  "no_zone_account =
     offline\<lparr>zone_detail := (\<lambda>h z. Inl (status_error 404)),
             zones_by_name := (\<lambda>h n. Inr no_zones),
             zones_page := (\<lambda>h n. Inr no_zones),
             account_zones := (\<lambda>h a n. Inr no_zones),
             token_verify := (\<lambda>h. Inr True),
             user := (\<lambda>h. Inr \<lparr>success = True, result = Some [''account-1''],
                                errors0_message = None\<rparr>)\<rparr>"

definition api_failure :: network where
  "api_failure =
     offline\<lparr>zones_by_name := (\<lambda>h n. Inr \<lparr>success = False, result = [],
                  errors0_message = Some ''Invalid request headers''\<rparr>)\<rparr>"

section \<open>Properties of the string operations\<close>

lemma endsWith_append: "endsWith (a @ t) t"
  by (simp add: endsWith_def)

lemma slice_last_length: "length (slice_last n xs) = min n (length xs)"
  by (simp add: slice_last_def)

lemma slice_last_3_2:
  assumes "length parts > 2"
  shows "slice_last 3 parts = parts ! (length parts - 3) # slice_last 2 parts"
proof -
  have "drop (length parts - 3) parts
        = parts ! (length parts - 3) # drop (Suc (length parts - 3)) parts"
    using assms by (intro Cons_nth_drop_Suc [symmetric]) simp
  moreover have "Suc (length parts - 3) = length parts - 2"
    using assms by simp
  ultimately show ?thesis
    by (simp add: slice_last_def)
qed

lemma join_Cons_nonempty: "ps \<noteq> [] \<Longrightarrow> join sep (p # ps) = p @ sep @ join sep ps"
  by (cases ps) simp_all

lemma lastThree_endsWith_lastTwo:
  assumes "length parts > 2"
  shows "endsWith (join ''.'' (slice_last 3 parts)) (join ''.'' (slice_last 2 parts))"
proof -
  have ne: "slice_last 2 parts \<noteq> []"
    using assms slice_last_length [of 2 parts] by auto
  have "join ''.'' (slice_last 3 parts)
        = (parts ! (length parts - 3) @ ''.'') @ join ''.'' (slice_last 2 parts)"
    using assms ne by (simp add: slice_last_3_2 join_Cons_nonempty)
  then show ?thesis
    by (metis endsWith_append)
qed

section \<open>Root-domain extraction: the labels kept\<close>

text \<open>
  C5 (as amended). Both extractors return a domain of at most two labels unchanged. For a
  domain of more than two labels, the adaptive provider returns the last three labels
  joined by dots when the last two labels are one of \<^verbatim>\<open>co.uk\<close>, \<^verbatim>\<open>com.au\<close>, \<^verbatim>\<open>co.nz\<close>,
  \<^verbatim>\<open>co.za\<close>, and the last two labels when the joined last three labels end with none of these
  four strings; the plain Cloudflare provider has no list of suffixes and always returns
  the last two labels.
\<close>

theorem extractRootDomain_labels:
  "(let parts = split_on CHR ''.'' domain in
     (length parts \<le> 2 \<longrightarrow>
        extractRootDomain domain = domain \<and> cf_extractRootDomain domain = domain) \<and>
     (length parts > 2 \<and> join ''.'' (slice_last 2 parts) \<in> set specialTlds \<longrightarrow>
        extractRootDomain domain = join ''.'' (slice_last 3 parts)) \<and>
     (length parts > 2 \<and>
      \<not> list_ex (endsWith (join ''.'' (slice_last 3 parts))) specialTlds \<longrightarrow>
        extractRootDomain domain = join ''.'' (slice_last 2 parts)) \<and>
     (length parts > 2 \<longrightarrow> cf_extractRootDomain domain = join ''.'' (slice_last 2 parts)))"
proof -
  define parts where "parts = split_on CHR ''.'' domain"
  have short: "extractRootDomain domain = domain \<and> cf_extractRootDomain domain = domain"
    if "length parts \<le> 2"
    using that by (simp add: extractRootDomain_def cf_extractRootDomain_def parts_def)
  have special: "extractRootDomain domain = join ''.'' (slice_last 3 parts)"
    if "length parts > 2" "join ''.'' (slice_last 2 parts) \<in> set specialTlds"
  proof -
    have "list_ex (endsWith (join ''.'' (slice_last 3 parts))) specialTlds"
      unfolding list_ex_iff using that lastThree_endsWith_lastTwo by blast
    then show ?thesis
      using that(1) by (simp add: extractRootDomain_def parts_def Let_def)
  qed
  have plain: "extractRootDomain domain = join ''.'' (slice_last 2 parts)"
    if "length parts > 2" "\<not> list_ex (endsWith (join ''.'' (slice_last 3 parts))) specialTlds"
    using that by (simp add: extractRootDomain_def parts_def Let_def)
  have cf: "cf_extractRootDomain domain = join ''.'' (slice_last 2 parts)"
    if "length parts > 2"
    using that by (simp add: cf_extractRootDomain_def parts_def Let_def)
  show ?thesis
    unfolding Let_def parts_def [symmetric] using short special plain cf by blast
qed

theorem extractRootDomain_labels_witness:
  "extractRootDomain ''example.com'' = ''example.com'' \<and>
   cf_extractRootDomain ''example.com'' = ''example.com'' \<and>
   extractRootDomain ''a.b.co.uk'' = ''b.co.uk'' \<and>
   extractRootDomain ''api.eu.example.com'' = ''example.com'' \<and>
   cf_extractRootDomain ''api.eu.example.com'' = ''example.com''"
proof -
  have s1: "split_on CHR ''.'' ''example.com'' = [''example'', ''com'']"
    by simp
  have s2: "split_on CHR ''.'' ''a.b.co.uk'' = [''a'', ''b'', ''co'', ''uk'']"
    by simp
  have s3: "split_on CHR ''.'' ''api.eu.example.com'' = [''api'', ''eu'', ''example'', ''com'']"
    by simp
  show ?thesis
    using extractRootDomain_labels [of "''example.com''"]
      extractRootDomain_labels [of "''a.b.co.uk''"]
      extractRootDomain_labels [of "''api.eu.example.com''"]
    unfolding s1 s2 s3 Let_def
    by (simp add: slice_last_def specialTlds_def endsWith_def)
qed

text \<open>The plain Cloudflare provider on a domain under \<^verbatim>\<open>co.uk\<close>: the suffix itself, not the
  last three labels.\<close>

theorem cf_extractRootDomain_counterexample:
  "cf_extractRootDomain ''a.b.co.uk'' = ''co.uk'' \<and>
   cf_extractRootDomain ''a.b.co.uk'' \<noteq> ''b.co.uk''"
  by (simp add: cf_extractRootDomain_def slice_last_def)

text \<open>The adaptive provider compares strings, not labels: a second-level label that ends
  with \<^verbatim>\<open>co\<close> is taken for the suffix \<^verbatim>\<open>co.uk\<close>, and three labels are kept.\<close>

lemma extractRootDomain_suffix_inside_label:
  "extractRootDomain ''www.tesco.uk'' = ''www.tesco.uk''"
  by (simp add: extractRootDomain_def slice_last_def specialTlds_def endsWith_def)

section \<open>Propagation check: the quorum\<close>

lemma successfulChecks_count:
  "length (successfulChecks rs v) = length (filter (\<lambda>r. r = Inr v) rs)"
proof (induction rs)
  case Nil
  show ?case
    by (simp add: successfulChecks_def)
next
  case (Cons r rs)
  then show ?case
    by (cases r) (simp_all add: successfulChecks_def)
qed

lemma allSettled_queries_length:
  "length (fst (allSettled_queries net domain recordType servers st)) = length servers"
proof (induction servers arbitrary: st)
  case Nil
  show ?case
    by simp
next
  case (Cons server servers)
  obtain r st1 where q: "queryDNSServer net domain recordType server st = (r, st1)"
    by (cases "queryDNSServer net domain recordType server st")
  obtain rs st2 where a: "allSettled_queries net domain recordType servers st1 = (rs, st2)"
    by (cases "allSettled_queries net domain recordType servers st1")
  have "length rs = length servers"
    using Cons.IH [of st1] a by simp
  then show ?case
    by (simp add: q a)
qed

text \<open>
  C3. A propagation check makes three queries, and answers true exactly when at least two
  of the three outcomes are fulfilled with the expected value: a rejected query (a timeout,
  a transport failure, no answer) is counted on neither side. The body of the check never
  throws, and the handler of the check answers false for any error it would catch.
\<close>

theorem checkPropagation_quorum:
  "length (fst (allSettled_queries net domain recordType dnsServers st)) = 3 \<and>
   fst (checkPropagation net domain recordType expectedValue st)
     = (2 \<le> length (filter (\<lambda>r. r = Inr expectedValue)
               (fst (allSettled_queries net domain recordType dnsServers st)))) \<and>
   fst (checkPropagation_try net domain recordType expectedValue st)
     = Inr (fst (checkPropagation net domain recordType expectedValue st)) \<and>
   catch_false (Inl error) = False"
proof -
  have "length (fst (allSettled_queries net domain recordType dnsServers st)) = 3"
    by (simp add: allSettled_queries_length) (simp add: dnsServers_def)
  moreover have "fst (checkPropagation net domain recordType expectedValue st)
     = (2 \<le> length (filter (\<lambda>r. r = Inr expectedValue)
               (fst (allSettled_queries net domain recordType dnsServers st))))"
    by (simp add: checkPropagation_def checkPropagation_try_def catch_false_def
        successfulChecks_count split: prod.splits)
  moreover have "fst (checkPropagation_try net domain recordType expectedValue st)
     = Inr (fst (checkPropagation net domain recordType expectedValue st))"
    by (simp add: checkPropagation_def checkPropagation_try_def catch_false_def
        split: prod.splits)
  moreover have "catch_false (Inl error) = False"
    by (simp add: catch_false_def)
  ultimately show ?thesis
    by blast
qed

text \<open>Two matching answers and a timeout give true; one matching answer and two timeouts
  give false.\<close>

theorem checkPropagation_quorum_witness:
  "fst (checkPropagation two_then_timeout ''www.example.com'' ''A'' ''203.0.113.5'' new_client)
     = True \<and>
   fst (checkPropagation one_then_timeout ''www.example.com'' ''A'' ''203.0.113.5'' new_client)
     = False"
proof -
  have q2: "fst (allSettled_queries two_then_timeout ''www.example.com'' ''A'' dnsServers new_client)
      = [Inr ''203.0.113.5'', Inr ''203.0.113.5'', Inl timeout_error]"
    by (simp add: dnsServers_def queryDNSServer_def two_then_timeout_def new_client_def
        offline_def issue_def a_answer_def getRecordTypeNumber_def or_nat_def)
  have q1: "fst (allSettled_queries one_then_timeout ''www.example.com'' ''A'' dnsServers new_client)
      = [Inr ''203.0.113.5'', Inl timeout_error, Inl timeout_error]"
    by (simp add: dnsServers_def queryDNSServer_def one_then_timeout_def new_client_def
        offline_def issue_def a_answer_def getRecordTypeNumber_def or_nat_def)
  show ?thesis
    using checkPropagation_quorum
        [of two_then_timeout "''www.example.com''" "''A''" new_client "''203.0.113.5''"]
      checkPropagation_quorum
        [of one_then_timeout "''www.example.com''" "''A''" new_client "''203.0.113.5''"]
    unfolding q1 q2 by simp
qed

section \<open>DigitalOcean: the root name\<close>

lemma do_createRecord_calls:
  "calls (snd (do_createRecord net domain record st))
     = calls st @ [DO_CreateRecord domain (do_create_body_of record)]"
  by (simp add: do_createRecord_def issue_def Let_def split: sum.splits)

lemma do_updateRecord_calls:
  "calls (snd (do_updateRecord net domain recordId upd st))
     = calls st @ [DO_UpdateRecord domain recordId (do_update_body_of upd)]"
  by (simp add: do_updateRecord_def issue_def Let_def split: sum.splits)

lemma do_createRecord_result:
  "do_create net (calls st) domain (do_create_body_of record) = Inr doRecord \<Longrightarrow>
   fst (do_createRecord net domain record st) = Inr (result_of_do doRecord)"
  by (simp add: do_createRecord_def Let_def)

lemma do_updateRecord_result:
  "do_update net (calls st) domain recordId (do_update_body_of upd) = Inr doRecord \<Longrightarrow>
   fst (do_updateRecord net domain recordId upd st) = Inr (result_of_do doRecord)"
  by (simp add: do_updateRecord_def Let_def)

lemma do_listRecords_result:
  "do_list net (calls st) domain 200 (if truthy type \<and> type \<noteq> Some ''ALL'' then type else None)
     = Inr domain_records \<Longrightarrow>
   fst (do_listRecords net domain type st) = Inr (map result_of_do domain_records)"
  by (simp add: do_listRecords_def Let_def)

lemma result_of_do_name:
  "name (result_of_do doRecord)
     = (if do_name doRecord = None \<or> do_name doRecord = Some [] then ''@''
        else the (do_name doRecord))"
  by (simp add: result_of_do_def or_str_def split: option.splits)

lemma do_payload_root: "do_body_name (do_create_body_of record) = (if name record = ''@'' then [] else name record)"
  by (simp add: do_create_body_of_def do_payload_name_def)

lemma do_update_payload_root:
  "upd_name upd = Some ''@'' \<Longrightarrow> upd_name (do_update_body_of upd) = Some []"
  by (simp add: do_update_body_of_def do_payload_name_def)

text \<open>
  C10. The DigitalOcean provider sends the root name \<^verbatim>\<open>@\<close> as the empty string, in a create
  and in an update; every record returned by create, update or list has the name \<^verbatim>\<open>@\<close>
  when the provider's name is absent or empty, and the provider's name otherwise; so a
  root record created with the name \<^verbatim>\<open>@\<close>, which the provider answers with the name it was
  sent, comes back with the name \<^verbatim>\<open>@\<close>.
\<close>

theorem do_root_name_roundtrip:
  "(name record = ''@'' \<longrightarrow>
      calls (snd (do_createRecord net domain record st))
        = calls st @ [DO_CreateRecord domain (do_create_body_of record)] \<and>
      do_body_name (do_create_body_of record) = []) \<and>
   (upd_name upd = Some ''@'' \<longrightarrow>
      calls (snd (do_updateRecord net domain recordId upd st))
        = calls st @ [DO_UpdateRecord domain recordId (do_update_body_of upd)] \<and>
      upd_name (do_update_body_of upd) = Some []) \<and>
   (do_create net (calls st) domain (do_create_body_of record) = Inr doRecord \<longrightarrow>
      fst (do_createRecord net domain record st) = Inr (result_of_do doRecord)) \<and>
   (do_update net (calls st) domain recordId (do_update_body_of upd) = Inr doRecord \<longrightarrow>
      fst (do_updateRecord net domain recordId upd st) = Inr (result_of_do doRecord)) \<and>
   (do_list net (calls st) domain 200 (if truthy type \<and> type \<noteq> Some ''ALL'' then type else None)
      = Inr domain_records \<longrightarrow>
      fst (do_listRecords net domain type st) = Inr (map result_of_do domain_records)) \<and>
   name (result_of_do doRecord)
     = (if do_name doRecord = None \<or> do_name doRecord = Some [] then ''@''
        else the (do_name doRecord)) \<and>
   (name record = ''@'' \<and>
    do_create net (calls st) domain (do_create_body_of record) = Inr doRecord \<and>
    do_name doRecord = Some (do_body_name (do_create_body_of record)) \<longrightarrow>
      (\<exists>r. fst (do_createRecord net domain record st) = Inr r \<and> name r = ''@''))"
proof -
  have echo: "\<exists>r. fst (do_createRecord net domain record st) = Inr r \<and> name r = ''@''"
    if "name record = ''@''"
      "do_create net (calls st) domain (do_create_body_of record) = Inr doRecord"
      "do_name doRecord = Some (do_body_name (do_create_body_of record))"
  proof -
    have "do_name doRecord = Some []"
      using that(1,3) by (simp add: do_payload_root)
    then have "name (result_of_do doRecord) = ''@''"
      by (simp add: result_of_do_name)
    then show ?thesis
      using do_createRecord_result [OF that(2)] by simp
  qed
  show ?thesis
    using do_createRecord_calls do_updateRecord_calls do_createRecord_result
      do_updateRecord_result do_listRecords_result result_of_do_name do_payload_root
      do_update_payload_root echo
    by (intro conjI impI) simp_all
qed

theorem do_root_name_roundtrip_witness:
  "calls (snd (do_createRecord echo_create ''example.com'' root_record new_client))
     = [DO_CreateRecord ''example.com''
          \<lparr>do_body_type = ''A'', do_body_name = [], do_body_data = ''203.0.113.5'',
           do_body_ttl = 1800, do_body_priority = None\<rparr>] \<and>
   (\<exists>r. fst (do_createRecord echo_create ''example.com'' root_record new_client) = Inr r \<and>
        name r = ''@'')"
proof -
  have n: "name root_record = ''@''"
    by (simp add: root_record_def)
  have b: "do_create_body_of root_record =
      \<lparr>do_body_type = ''A'', do_body_name = [], do_body_data = ''203.0.113.5'',
       do_body_ttl = 1800, do_body_priority = None\<rparr>"
    by (simp add: root_record_def do_create_body_of_def do_payload_name_def or_undefined_def)
  have c: "do_create echo_create (calls new_client) ''example.com'' (do_create_body_of root_record)
      = Inr \<lparr>do_id = 7, do_type = ''A'', do_name = Some [], do_data = ''203.0.113.5'',
             do_ttl = 1800, do_priority = None\<rparr>"
    unfolding b by (simp add: echo_create_def offline_def)
  show ?thesis
    using do_root_name_roundtrip [of root_record echo_create "''example.com''" new_client
        _ _ "\<lparr>do_id = 7, do_type = ''A'', do_name = Some [], do_data = ''203.0.113.5'',
             do_ttl = 1800, do_priority = None\<rparr>"] n c
    by (simp add: b new_client_def)
qed

section \<open>Listing: the type filter\<close>

text \<open>The plain Cloudflare provider and the DigitalOcean provider treat the type \<^verbatim>\<open>ALL\<close>
  as no type.\<close>

lemma cf_listRecords_ALL:
  "cf_listRecords net domain (Some ''ALL'') st = cf_listRecords net domain None st"
  by (simp add: cf_listRecords_def truthy_def)

lemma do_listRecords_ALL:
  "do_listRecords net domain (Some ''ALL'') st = do_listRecords net domain None st"
  by (simp add: do_listRecords_def truthy_def)

text \<open>The adaptive provider sends whatever truthy type it is given.\<close>

lemma listRecords_request:
  assumes "discoverZoneId fuel net cfg domain st = (Some (Inr zid), st1)"
  shows "calls (snd (listRecords fuel net cfg domain type st))
           = calls st1 @ [CF_ListRecords zid 100 (if truthy type then type else None)]"
  using assms by (simp add: listRecords_def Let_def issue_def split: sum.splits)

text \<open>
  C9 (the code at the failing input). With the type \<^verbatim>\<open>ALL\<close> the adaptive provider sends the
  type parameter \<^verbatim>\<open>ALL\<close> to the API, where with no type it sends none; on the same input
  the plain Cloudflare provider and the DigitalOcean provider send no type parameter.
\<close>

theorem adaptive_listRecords_sends_ALL:
  "calls (snd (listRecords 1 one_zone no_config ''example.com'' (Some ''ALL'') (new_adaptive no_config)))
     = [CF_ZonesByName ''example.com'', CF_ListRecords ''zone-1'' 100 (Some ''ALL'')] \<and>
   calls (snd (listRecords 1 one_zone no_config ''example.com'' None (new_adaptive no_config)))
     = [CF_ZonesByName ''example.com'', CF_ListRecords ''zone-1'' 100 None] \<and>
   calls (snd (cf_listRecords one_zone ''example.com'' (Some ''ALL'') new_client))
     = [CF_ZonesByName ''example.com'', CF_ListRecords ''zone-1'' 100 None] \<and>
   calls (snd (do_listRecords one_zone ''example.com'' (Some ''ALL'') new_client))
     = [DO_ListRecords ''example.com'' 200 None]"
proof -
  have root: "extractRootDomain ''example.com'' = ''example.com''"
    by (simp add: extractRootDomain_def)
  have d: "discoverZoneId 1 one_zone no_config ''example.com'' (new_adaptive no_config)
      = (Some (Inr ''zone-1''),
         cacheZoneId ''example.com'' ''zone-1'' ''direct_lookup''
           (issue (CF_ZonesByName ''example.com'') (new_adaptive no_config)))"
    unfolding One_nat_def discoverZoneId.simps root
    by (simp add: strategy1_def strategy2_def no_config_def new_adaptive_def truthy_def
        or_opt_def one_zone_def offline_def Let_def)
  have a: "calls (snd (listRecords 1 one_zone no_config ''example.com'' type (new_adaptive no_config)))
     = [CF_ZonesByName ''example.com'', CF_ListRecords ''zone-1'' 100 (if truthy type then type else None)]" for type
    unfolding listRecords_request [OF d]
    by (simp add: cacheZoneId_def issue_def new_adaptive_def)
  have croot: "cf_extractRootDomain ''example.com'' = ''example.com''"
    by (simp add: cf_extractRootDomain_def)
  have c: "calls (snd (cf_listRecords one_zone ''example.com'' (Some ''ALL'') new_client))
     = [CF_ZonesByName ''example.com'', CF_ListRecords ''zone-1'' 100 None]"
    by (simp add: cf_listRecords_def cf_getZoneId_def croot one_zone_def offline_def
        issue_def new_client_def truthy_def Let_def)
  have e: "calls (snd (do_listRecords one_zone ''example.com'' (Some ''ALL'') new_client))
     = [DO_ListRecords ''example.com'' 200 None]"
    by (simp add: do_listRecords_def one_zone_def offline_def issue_def new_client_def
        truthy_def Let_def)
  show ?thesis
    using a [of "Some ''ALL''"] a [of None] c e by (simp add: truthy_def)
qed

section \<open>The service: domains that do not exist\<close>


text \<open>
  When the provider has been obtained and its listing throws, \<^verbatim>\<open>DNSService.listRecords\<close>
  returns the empty list if the error is of the not-found class (status code 404, or a
  message that includes \<^verbatim>\<open>not found\<close> or \<^verbatim>\<open>does not exist\<close>) and rethrows the error
  otherwise. The provider is called once, for the listing that was asked: its state
  afterwards is the state after that one call, so no validation call precedes it.
\<close>

lemma svc_listRecords_not_found:
  assumes "getDNSProvider construct provider jwtToken svc = (Inr (key, dnsProvider), svc1)"
    and "p_listRecords ops domain recordType dnsProvider = (Some (Inl error), p1)"
  shows "svc_listRecords construct ops domain provider jwtToken recordType svc
           = (Some (if not_found_class error then Inr [] else Inl error), store key p1 svc1)"
  using assms by (simp add: svc_listRecords_def)

lemma getDNSProvider_new:
  "providers svc (cacheKey provider jwtToken) = None \<Longrightarrow>
   construct provider jwtToken = Inr p \<Longrightarrow>
   getDNSProvider construct provider jwtToken svc
     = (Inr (cacheKey provider jwtToken, p), store (cacheKey provider jwtToken) p svc)"
  by (simp add: getDNSProvider_def Let_def)

lemma getDNSProvider_cached:
  "providers svc (cacheKey provider jwtToken) = Some p \<Longrightarrow>
   getDNSProvider construct provider jwtToken svc = (Inr (cacheKey provider jwtToken, p), svc)"
  by (simp add: getDNSProvider_def Let_def)

lemma do_listRecords_no_domains:
  "do_listRecords no_domains domain type st
     = (Inl (DNSProviderError
               ''Failed to list DNS records: The resource you were accessing could not be found.''
               404 (Some ''digitalocean'')),
        issue (DO_ListRecords domain 200 (if truthy type \<and> type \<noteq> Some ''ALL'' then type else None)) st)"
  by (simp add: do_listRecords_def no_domains_def offline_def not_found_404_def do_wrap_def
      or_str_def or_nat_def Let_def)

lemma svc_listRecords_not_found_example:
  "svc_listRecords construct_digitalocean (digitalocean_ops no_domains) ''example.com''
       ''digitalocean'' ''token'' (Some ''A'') new_service
     = (Some (Inr []),
        \<lparr>providers = [''digitalocean_token'' \<mapsto>
            \<lparr>calls = [DO_ListRecords ''example.com'' 200 (Some ''A'')]\<rparr>]\<rparr>)"
proof -
  have k: "cacheKey ''digitalocean'' ''token'' = ''digitalocean_token''"
    by (simp add: cacheKey_def slice_last_def)
  have g: "getDNSProvider construct_digitalocean ''digitalocean'' ''token'' new_service
      = (Inr (''digitalocean_token'', new_client), store ''digitalocean_token'' new_client new_service)"
    using getDNSProvider_new [of new_service "''digitalocean''" "''token''" construct_digitalocean new_client]
    unfolding k by (simp add: new_service_def construct_digitalocean_def)
  have l: "p_listRecords (digitalocean_ops no_domains) ''example.com'' (Some ''A'') new_client
      = (Some (Inl (DNSProviderError
               ''Failed to list DNS records: The resource you were accessing could not be found.''
               404 (Some ''digitalocean''))),
         issue (DO_ListRecords ''example.com'' 200 (Some ''A'')) new_client)"
    by (simp add: digitalocean_ops_def returned_def do_listRecords_no_domains truthy_def)
  have n: "not_found_class (DNSProviderError
               ''Failed to list DNS records: The resource you were accessing could not be found.''
               404 (Some ''digitalocean''))"
    by (simp add: not_found_class_def DNSProviderError_def)
  show ?thesis
    using svc_listRecords_not_found [OF g l] n
    by (simp add: store_def new_service_def issue_def new_client_def)
qed

lemma validateDomain_state:
  assumes "getDNSProvider construct provider jwtToken svc = (Inr (key, dnsProvider), svc1)"
    and "p_listRecords ops domain None dnsProvider = (r, p1)"
  shows "snd (validateDomain construct ops domain provider jwtToken svc) = store key p1 svc1"
  using assms by (simp add: validateDomain_def split: option.splits sum.splits)



section \<open>Zone discovery: the cache\<close>

lemma cached_cacheZoneId: "cached rootDomain zid (cacheZoneId rootDomain zid meth st)"
  by (simp add: cached_def cacheZoneId_def)

lemma strategy1_cached:
  "strategy1 net cfg rootDomain st = (Some zid, st1) \<Longrightarrow> cached rootDomain zid st1"
  by (auto simp add: strategy1_def Let_def cached_cacheZoneId split: if_splits sum.splits)

lemma strategy2_cached:
  "strategy2 net rootDomain st = (Some zid, st1) \<Longrightarrow> cached rootDomain zid st1"
  by (auto simp add: strategy2_def Let_def cached_cacheZoneId split: if_splits sum.splits)

lemma strategy3_cached:
  "strategy3 net domain rootDomain st = (Some zid, st1) \<Longrightarrow> cached rootDomain zid st1"
  by (auto simp add: strategy3_def Let_def cached_cacheZoneId
      split: if_splits sum.splits option.splits)

lemma strategy4_cached:
  "strategy4 net rootDomain st = (Some zid, st1) \<Longrightarrow> cached rootDomain zid st1"
  by (auto simp add: strategy4_def Let_def cached_cacheZoneId
      split: if_splits sum.splits option.splits)

lemma discoverZoneId_cached:
  "discoverZoneId fuel net cfg domain st = (Some (Inr zid), st') \<Longrightarrow>
   cached (extractRootDomain domain) zid st'"
proof (induction fuel arbitrary: st)
  case 0
  then show ?case by (simp add: discoverZoneId.simps)
next
  case (Suc fuel)
  note simps = discoverZoneId.simps Let_def
  let ?root = "extractRootDomain domain"
  show ?case
  proof (cases "zoneCache st ?root")
    case (Some entry)
    with Suc.prems show ?thesis
      by (auto simp add: cached_def simps)
  next
    case None
    obtain r1 st1 where s1: "strategy1 net cfg ?root st = (r1, st1)" by (cases "strategy1 net cfg ?root st")
    obtain r2 st2 where s2: "strategy2 net ?root st1 = (r2, st2)" by (cases "strategy2 net ?root st1")
    obtain r3 st3 where s3: "strategy3 net domain ?root st2 = (r3, st3)" by (cases "strategy3 net domain ?root st2")
    obtain r4 st4 where s4: "strategy4 net ?root st3 = (r4, st4)" by (cases "strategy4 net ?root st3")
    obtain r5 st5 where s5: "strategy5 net st4 = (r5, st5)" by (cases "strategy5 net st4")
    show ?thesis
    proof (cases r1)
      case (Some z)
      with Suc.prems None s1 strategy1_cached [of net cfg ?root st z st1] show ?thesis
        by (simp add: simps)
    next
      case r1: None
      show ?thesis
      proof (cases r2)
        case (Some z)
        with Suc.prems None s1 r1 s2 strategy2_cached [of net ?root st1 z st2] show ?thesis
          by (simp add: simps)
      next
        case r2: None
        show ?thesis
        proof (cases r3)
          case (Some z)
          with Suc.prems None s1 r1 s2 r2 s3 strategy3_cached [of net domain ?root st2 z st3]
          show ?thesis
            by (simp add: simps)
        next
          case r3: None
          show ?thesis
          proof (cases r4)
            case (Some z)
            with Suc.prems None s1 r1 s2 r2 s3 r3 s4 strategy4_cached [of net ?root st3 z st4]
            show ?thesis
              by (simp add: simps)
          next
            case r4: None
            show ?thesis
            proof (cases r5)
              case True
              with Suc.prems None s1 r1 s2 r2 s3 r3 s4 r4 s5
              have "discoverZoneId fuel net cfg domain st5 = (Some (Inr zid), st')"
                by (simp add: simps)
              then show ?thesis
                by (rule Suc.IH)
            next
              case False
              with Suc.prems None s1 r1 s2 r2 s3 r3 s4 r4 s5 show ?thesis
                by (simp add: simps)
            qed
          qed
        qed
      qed
    qed
  qed
qed

lemma discoverZoneId_hit:
  "cached (extractRootDomain domain) zid st \<Longrightarrow>
   discoverZoneId (Suc fuel) net cfg domain st = (Some (Inr zid), st)"
  by (auto simp add: cached_def Let_def discoverZoneId.simps)

text \<open>
  C8. After a discovery has returned a zone id for a domain, a discovery for any domain
  with the same root domain returns that zone id from the cache, whatever the network and
  the configuration are then: the state, and with it the log of requests, is unchanged, so
  the second discovery issues no request.
\<close>

theorem discoverZoneId_second_call_cached:
  assumes "discoverZoneId fuel net cfg domain st = (Some (Inr zid), st')"
    and "extractRootDomain domain' = extractRootDomain domain"
  shows "discoverZoneId (Suc fuel') net' cfg' domain' st' = (Some (Inr zid), st') \<and>
         calls (snd (discoverZoneId (Suc fuel') net' cfg' domain' st')) = calls st'"
proof -
  have "cached (extractRootDomain domain') zid st'"
    using discoverZoneId_cached [OF assms(1)] assms(2) by simp
  then show ?thesis
    by (simp add: discoverZoneId_hit)
qed

text \<open>Two discoveries under the same root domain, the second on an unreachable network:
  one request in all.\<close>

theorem discoverZoneId_second_call_cached_witness:
  "discoverZoneId 1 offline no_config ''api.example.com''
       (snd (discoverZoneId 1 one_zone no_config ''www.example.com'' (new_adaptive no_config)))
     = (Some (Inr ''zone-1''),
        snd (discoverZoneId 1 one_zone no_config ''www.example.com'' (new_adaptive no_config))) \<and>
   calls (snd (discoverZoneId 1 offline no_config ''api.example.com''
       (snd (discoverZoneId 1 one_zone no_config ''www.example.com'' (new_adaptive no_config)))))
     = [CF_ZonesByName ''example.com'']"
proof -
  have r1: "extractRootDomain ''www.example.com'' = ''example.com''"
    by (simp add: extractRootDomain_def slice_last_def specialTlds_def endsWith_def)
  have r2: "extractRootDomain ''api.example.com'' = ''example.com''"
    by (simp add: extractRootDomain_def slice_last_def specialTlds_def endsWith_def)
  have d: "discoverZoneId 1 one_zone no_config ''www.example.com'' (new_adaptive no_config)
      = (Some (Inr ''zone-1''),
         cacheZoneId ''example.com'' ''zone-1'' ''direct_lookup''
           (issue (CF_ZonesByName ''example.com'') (new_adaptive no_config)))"
    unfolding One_nat_def discoverZoneId.simps r1
    by (simp add: strategy1_def strategy2_def no_config_def new_adaptive_def truthy_def
        or_opt_def one_zone_def offline_def Let_def)
  have c: "calls (cacheZoneId ''example.com'' ''zone-1'' ''direct_lookup''
           (issue (CF_ZonesByName ''example.com'') (new_adaptive no_config)))
      = [CF_ZonesByName ''example.com'']"
    by (simp add: cacheZoneId_def issue_def new_adaptive_def)
  show ?thesis
    using discoverZoneId_second_call_cached
        [of 1 one_zone no_config "''www.example.com''" "new_adaptive no_config" "''zone-1''"
          _ "''api.example.com''" 0 offline no_config]
    unfolding d r1 r2 by (simp add: c)
qed

section \<open>Zone discovery: the supplied zone id\<close>

lemma extends_refl: "extends st st"
  by (simp add: extends_def)

lemma extends_trans: "extends a b \<Longrightarrow> extends b c \<Longrightarrow> extends a c"
  unfolding extends_def
  by (metis append_eq_conv_conj append_assoc append_take_drop_id)

lemma extends_issue: "extends st (issue r st)"
  by (simp add: extends_def issue_def)

lemma extends_cacheZoneId: "extends st st' \<Longrightarrow> extends st (cacheZoneId d z m st')"
  by (simp add: extends_def cacheZoneId_def)

lemma extends_accountId: "extends st st' \<Longrightarrow> extends st (st'\<lparr>accountId := a\<rparr>)"
  by (simp add: extends_def)

lemma strategy1_extends: "extends st (snd (strategy1 net cfg rootDomain st))"
  by (simp add: strategy1_def Let_def extends_refl extends_issue extends_cacheZoneId
      split: sum.splits)

lemma strategy2_calls:
  "calls (snd (strategy2 net rootDomain st)) = calls st @ [CF_ZonesByName rootDomain]"
  by (simp add: strategy2_def Let_def issue_def cacheZoneId_def split: sum.splits)

lemma strategy3_extends: "extends st (snd (strategy3 net domain rootDomain st))"
  by (simp add: strategy3_def Let_def extends_issue extends_cacheZoneId extends_accountId
      split: sum.splits option.splits)

lemma strategy4_extends: "extends st (snd (strategy4 net rootDomain st))"
  by (simp add: strategy4_def Let_def extends_refl extends_issue extends_cacheZoneId
      split: sum.splits option.splits)

lemma strategy5_extends: "extends st (snd (strategy5 net st))"
proof -
  have "extends st (issue CF_User (issue CF_TokenVerify st))"
    by (meson extends_issue extends_trans)
  then show ?thesis
    by (simp add: strategy5_def Let_def extends_refl extends_issue extends_accountId
      split: sum.splits option.splits)
qed

lemma discoverZoneId_extends: "extends st (snd (discoverZoneId fuel net cfg domain st))"
proof (induction fuel arbitrary: st)
  case 0
  show ?case by (simp add: discoverZoneId.simps extends_refl)
next
  case (Suc fuel)
  let ?root = "extractRootDomain domain"
  obtain r1 st1 where s1: "strategy1 net cfg ?root st = (r1, st1)" by (cases "strategy1 net cfg ?root st")
  obtain r2 st2 where s2: "strategy2 net ?root st1 = (r2, st2)" by (cases "strategy2 net ?root st1")
  obtain r3 st3 where s3: "strategy3 net domain ?root st2 = (r3, st3)" by (cases "strategy3 net domain ?root st2")
  obtain r4 st4 where s4: "strategy4 net ?root st3 = (r4, st4)" by (cases "strategy4 net ?root st3")
  obtain r5 st5 where s5: "strategy5 net st4 = (r5, st5)" by (cases "strategy5 net st4")
  have e1: "extends st st1" using strategy1_extends [of st net cfg ?root] s1 by simp
  have "extends st1 st2" using strategy2_calls [of net ?root st1] s2 by (simp add: extends_def)
  with e1 have e2: "extends st st2" by (rule extends_trans)
  have "extends st2 st3" using strategy3_extends [of st2 net domain ?root] s3 by simp
  with e2 have e3: "extends st st3" by (rule extends_trans)
  have "extends st3 st4" using strategy4_extends [of st3 net ?root] s4 by simp
  with e3 have e4: "extends st st4" by (rule extends_trans)
  have "extends st4 st5" using strategy5_extends [of st4 net] s5 by simp
  with e4 have e5: "extends st st5" by (rule extends_trans)
  have e6: "extends st (snd (discoverZoneId fuel net cfg domain st5))"
    using e5 Suc.IH [of st5] by (rule extends_trans)
  show ?case
    using e1 e2 e3 e4 e5 e6
    by (simp add: discoverZoneId.simps Let_def s1 s2 s3 s4 s5 extends_refl
        split: option.splits bool.splits)
qed


lemma discoverZoneId_after_strategy2:
  assumes "zoneCache st (extractRootDomain domain) = None"
    and "strategy1 net cfg (extractRootDomain domain) st = (None, st1)"
  shows "extends (snd (strategy2 net (extractRootDomain domain) st1))
           (snd (discoverZoneId (Suc fuel) net cfg domain st))"
proof -
  let ?root = "extractRootDomain domain"
  obtain r2 st2 where s2: "strategy2 net ?root st1 = (r2, st2)" by (cases "strategy2 net ?root st1")
  obtain r3 st3 where s3: "strategy3 net domain ?root st2 = (r3, st3)" by (cases "strategy3 net domain ?root st2")
  obtain r4 st4 where s4: "strategy4 net ?root st3 = (r4, st4)" by (cases "strategy4 net ?root st3")
  obtain r5 st5 where s5: "strategy5 net st4 = (r5, st5)" by (cases "strategy5 net st4")
  have e3: "extends st2 st3" using strategy3_extends [of st2 net domain ?root] s3 by simp
  have "extends st3 st4" using strategy4_extends [of st3 net ?root] s4 by simp
  with e3 have e4: "extends st2 st4" by (rule extends_trans)
  have "extends st4 st5" using strategy5_extends [of st4 net] s5 by simp
  with e4 have e5: "extends st2 st5" by (rule extends_trans)
  have e6: "extends st2 (snd (discoverZoneId fuel net cfg domain st5))"
    using e5 discoverZoneId_extends [of st5 fuel net cfg domain] by (rule extends_trans)
  show ?thesis
    using e3 e4 e5 e6 assms
    by (simp add: discoverZoneId.simps Let_def s2 s3 s4 s5 extends_refl
        split: option.splits bool.splits)
qed

text \<open>
  C7. On a cache miss with a zone id supplied by the options or the environment, the
  discovery verifies the id with a zone-detail request. When that request is rejected with
  status 404, strategy 1 falls through with the cache as it was, and the next request is
  strategy 2's lookup of the root domain by name. When it is rejected in any other way, the
  discovery returns the supplied id, having cached it for the root domain as
  \<^verbatim>\<open>provided_unverified\<close>, and issues no other request.
\<close>

theorem discoverZoneId_presupplied_rejected:
  assumes "zoneCache st (extractRootDomain domain) = None"
    and "truthy (options_zoneId cfg) \<or> truthy (env_CLOUDFLARE_ZONE_ID cfg)"
    and "zid = or_str (options_zoneId cfg) (or_str (env_CLOUDFLARE_ZONE_ID cfg) [])"
    and "zone_detail net (calls st) zid = Inl error"
  shows "(response_status error = Some 404 \<longrightarrow>
            strategy1 net cfg (extractRootDomain domain) st = (None, issue (CF_ZoneDetail zid) st) \<and>
            zoneCache (issue (CF_ZoneDetail zid) st) = zoneCache st \<and>
            take (length (calls st) + 2) (calls (snd (discoverZoneId (Suc fuel) net cfg domain st)))
              = calls st @ [CF_ZoneDetail zid, CF_ZonesByName (extractRootDomain domain)]) \<and>
         (response_status error \<noteq> Some 404 \<longrightarrow>
            discoverZoneId (Suc fuel) net cfg domain st
              = (Some (Inr zid),
                 cacheZoneId (extractRootDomain domain) zid ''provided_unverified''
                   (issue (CF_ZoneDetail zid) st)) \<and>
            zoneCache (snd (discoverZoneId (Suc fuel) net cfg domain st)) (extractRootDomain domain)
              = Some \<lparr>zoneId = zid, cache_method = ''provided_unverified''\<rparr> \<and>
            calls (snd (discoverZoneId (Suc fuel) net cfg domain st))
              = calls st @ [CF_ZoneDetail zid])"
proof (intro conjI impI)
  let ?root = "extractRootDomain domain"
  let ?st1 = "issue (CF_ZoneDetail zid) st"
  assume nf: "response_status error = Some 404"
  show s1: "strategy1 net cfg ?root st = (None, ?st1)"
    using assms(2-4) nf by (simp add: strategy1_def Let_def)
  show "zoneCache ?st1 = zoneCache st"
    by (simp add: issue_def)
  have "extends (snd (strategy2 net ?root ?st1)) (snd (discoverZoneId (Suc fuel) net cfg domain st))"
    using assms(1) s1 by (rule discoverZoneId_after_strategy2)
  then show "take (length (calls st) + 2) (calls (snd (discoverZoneId (Suc fuel) net cfg domain st)))
      = calls st @ [CF_ZoneDetail zid, CF_ZonesByName ?root]"
    by (simp add: extends_def strategy2_calls issue_def)
next
  let ?root = "extractRootDomain domain"
  assume other: "response_status error \<noteq> Some 404"
  have s1: "strategy1 net cfg ?root st
      = (Some zid, cacheZoneId ?root zid ''provided_unverified'' (issue (CF_ZoneDetail zid) st))"
    using assms(2-4) other by (simp add: strategy1_def Let_def)
  show d: "discoverZoneId (Suc fuel) net cfg domain st
      = (Some (Inr zid), cacheZoneId ?root zid ''provided_unverified'' (issue (CF_ZoneDetail zid) st))"
    using assms(1) s1 by (simp add: discoverZoneId.simps Let_def)
  show "zoneCache (snd (discoverZoneId (Suc fuel) net cfg domain st)) ?root
      = Some \<lparr>zoneId = zid, cache_method = ''provided_unverified''\<rparr>"
    by (simp add: d cacheZoneId_def)
  show "calls (snd (discoverZoneId (Suc fuel) net cfg domain st)) = calls st @ [CF_ZoneDetail zid]"
    by (simp add: d cacheZoneId_def issue_def)
qed

theorem discoverZoneId_presupplied_rejected_witness:
  "discoverZoneId 1 forbidden with_zone_id ''www.example.com'' (new_adaptive with_zone_id)
     = (Some (Inr ''zone-9''),
        cacheZoneId ''example.com'' ''zone-9'' ''provided_unverified''
          (issue (CF_ZoneDetail ''zone-9'') (new_adaptive with_zone_id))) \<and>
   take 2 (calls (snd (discoverZoneId 1 zone_gone with_zone_id ''www.example.com''
                        (new_adaptive with_zone_id))))
     = [CF_ZoneDetail ''zone-9'', CF_ZonesByName ''example.com'']"
proof -
  have r: "extractRootDomain ''www.example.com'' = ''example.com''"
    by (simp add: extractRootDomain_def slice_last_def specialTlds_def endsWith_def)
  have m: "zoneCache (new_adaptive with_zone_id) ''example.com'' = None"
    by (simp add: new_adaptive_def)
  have t: "truthy (options_zoneId with_zone_id) \<or> truthy (env_CLOUDFLARE_ZONE_ID with_zone_id)"
    by (simp add: with_zone_id_def no_config_def truthy_def)
  have z: "''zone-9'' = or_str (options_zoneId with_zone_id)
                          (or_str (env_CLOUDFLARE_ZONE_ID with_zone_id) [])"
    by (simp add: with_zone_id_def no_config_def or_str_def)
  have f: "zone_detail forbidden (calls (new_adaptive with_zone_id)) ''zone-9''
      = Inl (status_error 403)"
    by (simp add: forbidden_def offline_def)
  have g: "zone_detail zone_gone (calls (new_adaptive with_zone_id)) ''zone-9''
      = Inl (status_error 404)"
    by (simp add: zone_gone_def one_zone_def offline_def)
  have c: "calls (new_adaptive with_zone_id) = []"
    by (simp add: new_adaptive_def)
  show ?thesis
    using discoverZoneId_presupplied_rejected
        [of "new_adaptive with_zone_id" "''www.example.com''" with_zone_id "''zone-9''"
          forbidden "status_error 403" 0, unfolded r, OF m t z f]
      discoverZoneId_presupplied_rejected
        [of "new_adaptive with_zone_id" "''www.example.com''" with_zone_id "''zone-9''"
          zone_gone "status_error 404" 0, unfolded r, OF m t z g]
    by (simp add: status_error_def c numeral_2_eq_2)
qed

section \<open>Substrings\<close>

lemma str_includes_prefix: "str_includes (t @ b) t"
proof (cases "t @ b")
  case Nil
  then show ?thesis by simp
next
  case (Cons x xs)
  have "take (length t) (t @ b) = t" by simp
  then have "take (length t) (x # xs) = t" unfolding Cons .
  then show ?thesis unfolding Cons by simp
qed

lemma str_includes_append: "str_includes (a @ t @ b) t"
proof (induction a)
  case Nil
  show ?case using str_includes_prefix by simp
next
  case (Cons x a)
  then show ?case by simp
qed

section \<open>Domain ownership\<close>

lemma message_DNSProviderError: "message (DNSProviderError msg code prov) = msg"
  by (simp add: DNSProviderError_def)

lemma zone_not_found_message:
  "str_includes (''Failed to get zone ID for '' @ domain @ '': '' @
                 ''Zone not found for domain: '' @ rest) ''Zone not found''"
proof -
  have "''Failed to get zone ID for '' @ domain @ '': '' @ ''Zone not found for domain: '' @ rest
        = (''Failed to get zone ID for '' @ domain @ '': '') @ ''Zone not found'' @
          ('' for domain: '' @ rest)"
    by simp
  then show ?thesis
    using str_includes_append by metis
qed

lemma cf_verifyDomainOwnership_true:
  "fst (cf_verifyDomainOwnership net domain st) = Inr True
     \<longleftrightarrow> (\<exists>zid. fst (cf_getZoneId net domain st) = Inr zid)"
  by (cases "cf_getZoneId net domain st")
    (auto simp add: cf_verifyDomainOwnership_def split: sum.splits)

lemma cf_verifyDomainOwnership_no_zone:
  assumes "zones_by_name net (calls st) (cf_extractRootDomain domain) = Inr response"
    and "success response" and "result response = []"
  shows "fst (cf_verifyDomainOwnership net domain st) = Inr False"
proof -
  let ?root = "cf_extractRootDomain domain"
  have g: "cf_getZoneId net domain st
      = (Inl (DNSProviderError
                (''Failed to get zone ID for '' @ domain @ '': '' @
                 ''Zone not found for domain: '' @ ?root @
                 ''. Make sure the domain is added to your Cloudflare account.'')
                500 (Some ''cloudflare'')),
         issue (CF_ZonesPage 50) (issue (CF_ZonesByName ?root) st))"
    using assms by (simp add: cf_getZoneId_def Let_def Error_def or_nat_def)
  show ?thesis
    by (simp only: cf_verifyDomainOwnership_def g prod.case sum.case message_DNSProviderError
        zone_not_found_message if_True fst_conv)
qed

lemma cf_verifyDomainOwnership_other:
  assumes "fst (cf_getZoneId net domain st) = Inl error"
    and "\<not> str_includes (message error) ''Zone not found''"
  shows "fst (cf_verifyDomainOwnership net domain st)
           = Inl (DNSProviderError (''Failed to verify domain ownership: '' @ message error)
                    500 (Some ''cloudflare''))"
  using assms
  by (cases "cf_getZoneId net domain st") (simp add: cf_verifyDomainOwnership_def)

lemma cf_getZoneId_rejected:
  assumes "zones_by_name net (calls st) (cf_extractRootDomain domain) = Inl error"
  shows "fst (cf_getZoneId net domain st)
           = Inl (DNSProviderError (''Failed to get zone ID for '' @ domain @ '': '' @ message error)
                    (or_nat (response_status error) 500) (Some ''cloudflare''))"
  using assms by (simp add: cf_getZoneId_def Let_def)

lemma do_verifyDomainOwnership_cases:
  "fst (do_verifyDomainOwnership net domain st)
     = (case do_get_domain net (calls st) domain of
          Inr response \<Rightarrow> Inr True
        | Inl error \<Rightarrow>
            if response_status error = Some 404 then Inr False
            else Inl (do_wrap ''Failed to verify domain ownership: '' error))"
  by (simp add: do_verifyDomainOwnership_def Let_def split: sum.splits)

lemma verifyDomainOwnership_never_throws:
  "fst (verifyDomainOwnership fuel net cfg domain st) \<noteq> Some (Inl error)"
  by (cases "discoverZoneId fuel net cfg domain st")
    (simp add: verifyDomainOwnership_def split: option.splits sum.splits)

lemma verifyDomainOwnership_true:
  "fst (verifyDomainOwnership fuel net cfg domain st) = Some (Inr True)
     \<longleftrightarrow> (\<exists>zid. fst (discoverZoneId fuel net cfg domain st) = Some (Inr zid))"
  by (cases "discoverZoneId fuel net cfg domain st")
    (auto simp add: verifyDomainOwnership_def split: option.splits sum.splits)

lemma verifyDomainOwnership_false:
  "fst (verifyDomainOwnership fuel net cfg domain st) = Some (Inr False)
     \<longleftrightarrow> (\<exists>error. fst (discoverZoneId fuel net cfg domain st) = Some (Inl error))"
  by (cases "discoverZoneId fuel net cfg domain st")
    (auto simp add: verifyDomainOwnership_def split: option.splits sum.splits)

text \<open>What the adaptive provider's discovery does when its requests are rejected, and what
  the plain provider's lookup gives on a found zone and on a failure envelope.\<close>

lemma strategy1_not_configured:
  "\<not> truthy (options_zoneId cfg) \<Longrightarrow> \<not> truthy (env_CLOUDFLARE_ZONE_ID cfg) \<Longrightarrow>
   strategy1 net cfg rootDomain st = (None, st)"
  by (simp add: strategy1_def)

lemma strategy2_rejected:
  "isl (zones_by_name net (calls st) rootDomain) \<Longrightarrow> fst (strategy2 net rootDomain st) = None"
  by (cases "zones_by_name net (calls st) rootDomain") (simp_all add: strategy2_def Let_def)

lemma strategy3_rejected:
  "isl (zones_page net (calls st) 100) \<Longrightarrow> fst (strategy3 net domain rootDomain st) = None"
  by (cases "zones_page net (calls st) 100") (simp_all add: strategy3_def Let_def)

lemma strategy4_rejected:
  "\<forall>h a n. isl (account_zones net h a n) \<Longrightarrow> fst (strategy4 net rootDomain st) = None"
proof -
  assume a: "\<forall>h a n. isl (account_zones net h a n)"
  show ?thesis
  proof (cases "accountId st")
    case None
    then show ?thesis by (simp add: strategy4_def)
  next
    case (Some acc)
    have "isl (account_zones net (calls st) acc rootDomain)" using a by blast
    then show ?thesis
      using Some
      by (cases "account_zones net (calls st) acc rootDomain") (simp_all add: strategy4_def Let_def)
  qed
qed

lemma strategy5_rejected:
  "\<forall>h. isl (token_verify net h) \<Longrightarrow> fst (strategy5 net st) = False"
proof -
  assume a: "\<forall>h. isl (token_verify net h)"
  have "isl (token_verify net (calls st))" using a by blast
  then show ?thesis
    by (cases "token_verify net (calls st)") (simp_all add: strategy5_def Let_def)
qed

lemma discoverZoneId_all_rejected:
  assumes "zoneCache st (extractRootDomain domain) = None"
    and "\<not> truthy (options_zoneId cfg)" and "\<not> truthy (env_CLOUDFLARE_ZONE_ID cfg)"
    and "\<forall>h n. isl (zones_by_name net h n)" and "\<forall>h n. isl (zones_page net h n)"
    and "\<forall>h a n. isl (account_zones net h a n)" and "\<forall>h. isl (token_verify net h)"
  shows "\<exists>error. fst (discoverZoneId (Suc fuel) net cfg domain st) = Some (Inl error)"
proof -
  let ?root = "extractRootDomain domain"
  have s1: "strategy1 net cfg ?root st = (None, st)"
    using assms(2,3) by (rule strategy1_not_configured)
  obtain r2 st2 where s2: "strategy2 net ?root st = (r2, st2)" by (cases "strategy2 net ?root st")
  obtain r3 st3 where s3: "strategy3 net domain ?root st2 = (r3, st3)" by (cases "strategy3 net domain ?root st2")
  obtain r4 st4 where s4: "strategy4 net ?root st3 = (r4, st4)" by (cases "strategy4 net ?root st3")
  obtain r5 st5 where s5: "strategy5 net st4 = (r5, st5)" by (cases "strategy5 net st4")
  have "isl (zones_by_name net (calls st) ?root)" using assms(4) by blast
  then have r2: "r2 = None" using strategy2_rejected [of net st ?root] s2 by simp
  have "isl (zones_page net (calls st2) 100)" using assms(5) by blast
  then have r3: "r3 = None" using strategy3_rejected [of net st2 domain ?root] s3 by simp
  have r4: "r4 = None" using strategy4_rejected [OF assms(6), of ?root st3] s4 by simp
  have r5: "r5 = False" using strategy5_rejected [OF assms(7), of st4] s5 by simp
  show ?thesis
    by (simp add: discoverZoneId.simps Let_def assms(1) s1 s2 r2 s3 r3 s4 r4 s5 r5)
qed

lemma discoverZoneId_unverified:
  assumes "zoneCache st (extractRootDomain domain) = None"
    and "truthy (options_zoneId cfg) \<or> truthy (env_CLOUDFLARE_ZONE_ID cfg)"
    and "zone_detail net (calls st) (or_str (options_zoneId cfg) (or_str (env_CLOUDFLARE_ZONE_ID cfg) []))
           = Inl error"
    and "response_status error \<noteq> Some 404"
  shows "fst (discoverZoneId (Suc fuel) net cfg domain st)
           = Some (Inr (or_str (options_zoneId cfg) (or_str (env_CLOUDFLARE_ZONE_ID cfg) [])))"
proof -
  let ?root = "extractRootDomain domain"
  let ?zid = "or_str (options_zoneId cfg) (or_str (env_CLOUDFLARE_ZONE_ID cfg) [])"
  have s1: "strategy1 net cfg ?root st
      = (Some ?zid, cacheZoneId ?root ?zid ''provided_unverified'' (issue (CF_ZoneDetail ?zid) st))"
    using assms(2-4) by (simp add: strategy1_def Let_def)
  show ?thesis
    using assms(1) s1 by (simp add: discoverZoneId.simps Let_def)
qed

lemma cf_verifyDomainOwnership_zone_not_found:
  assumes "fst (cf_getZoneId net domain st) = Inl error"
    and "str_includes (message error) ''Zone not found''"
  shows "fst (cf_verifyDomainOwnership net domain st) = Inr False"
  using assms
  by (cases "cf_getZoneId net domain st") (simp add: cf_verifyDomainOwnership_def)

lemma cf_getZoneId_found:
  assumes "zones_by_name net (calls st) (cf_extractRootDomain domain) = Inr response"
    and "success response" and "result response \<noteq> []"
  shows "fst (cf_getZoneId net domain st) = Inr (zone_id (hd (result response)))"
  using assms by (simp add: cf_getZoneId_def Let_def)

lemma cf_getZoneId_api_failure:
  assumes "zones_by_name net (calls st) (cf_extractRootDomain domain) = Inr response"
    and "\<not> success response"
  shows "fst (cf_getZoneId net domain st)
           = Inl (DNSProviderError
                    (''Failed to get zone ID for '' @ domain @ '': '' @
                     or_str (errors0_message response) ''Unknown Cloudflare API error'')
                    500 (Some ''cloudflare''))"
  using assms by (simp add: cf_getZoneId_def Let_def Error_def or_nat_def)

text \<open>
  C6 (as amended). In every provider \<^verbatim>\<open>verifyDomainOwnership\<close> returns true exactly when the
  zone (for DigitalOcean, the domain) is resolved. The plain Cloudflare provider returns
  false when the lookup fails with a message that includes \<^verbatim>\<open>Zone not found\<close>, as it does
  when the account has no zone of that name, and rethrows with status 500 any other
  failure of the lookup, a rejected request and a failure envelope alike. The DigitalOcean
  provider returns false on a 404 and rethrows any other rejection. The adaptive provider
  never throws: it returns false exactly when the discovery throws. On a cache miss with
  no zone id configured it returns false when every lookup request is rejected, whatever
  the status; with a zone id configured it returns true when the verification of that id
  is rejected with any status other than 404.
\<close>

theorem verifyDomainOwnership_by_provider:
  "(fst (cf_verifyDomainOwnership net domain st) = Inr True
      \<longleftrightarrow> (\<exists>zid. fst (cf_getZoneId net domain st) = Inr zid)) \<and>
   (zones_by_name net (calls st) (cf_extractRootDomain domain) = Inr response \<and>
    success response \<and> result response \<noteq> [] \<longrightarrow>
      fst (cf_verifyDomainOwnership net domain st) = Inr True) \<and>
   (zones_by_name net (calls st) (cf_extractRootDomain domain) = Inr response \<and>
    success response \<and> result response = [] \<longrightarrow>
      fst (cf_verifyDomainOwnership net domain st) = Inr False) \<and>
   (fst (cf_getZoneId net domain st) = Inl e \<and> str_includes (message e) ''Zone not found'' \<longrightarrow>
      fst (cf_verifyDomainOwnership net domain st) = Inr False) \<and>
   (fst (cf_getZoneId net domain st) = Inl e \<and> \<not> str_includes (message e) ''Zone not found'' \<longrightarrow>
      fst (cf_verifyDomainOwnership net domain st)
        = Inl (DNSProviderError (''Failed to verify domain ownership: '' @ message e)
                 500 (Some ''cloudflare''))) \<and>
   (zones_by_name net (calls st) (cf_extractRootDomain domain) = Inl error \<and>
    \<not> str_includes (''Failed to get zone ID for '' @ domain @ '': '' @ message error)
         ''Zone not found'' \<longrightarrow>
      fst (cf_verifyDomainOwnership net domain st)
        = Inl (DNSProviderError
                 (''Failed to verify domain ownership: '' @
                  ''Failed to get zone ID for '' @ domain @ '': '' @ message error)
                 500 (Some ''cloudflare''))) \<and>
   (zones_by_name net (calls st) (cf_extractRootDomain domain) = Inr response \<and>
    \<not> success response \<and>
    \<not> str_includes (''Failed to get zone ID for '' @ domain @ '': '' @
           or_str (errors0_message response) ''Unknown Cloudflare API error'')
         ''Zone not found'' \<longrightarrow>
      fst (cf_verifyDomainOwnership net domain st)
        = Inl (DNSProviderError
                 (''Failed to verify domain ownership: '' @
                  ''Failed to get zone ID for '' @ domain @ '': '' @
                  or_str (errors0_message response) ''Unknown Cloudflare API error'')
                 500 (Some ''cloudflare''))) \<and>
   (fst (do_verifyDomainOwnership net domain st) = Inr True
      \<longleftrightarrow> (\<exists>response. do_get_domain net (calls st) domain = Inr response)) \<and>
   (do_get_domain net (calls st) domain = Inl error \<and> response_status error = Some 404 \<longrightarrow>
      fst (do_verifyDomainOwnership net domain st) = Inr False) \<and>
   (do_get_domain net (calls st) domain = Inl error \<and> response_status error \<noteq> Some 404 \<longrightarrow>
      fst (do_verifyDomainOwnership net domain st)
        = Inl (do_wrap ''Failed to verify domain ownership: '' error)) \<and>
   (fst (verifyDomainOwnership fuel net cfg domain ast) = Some (Inr True)
      \<longleftrightarrow> (\<exists>zid. fst (discoverZoneId fuel net cfg domain ast) = Some (Inr zid))) \<and>
   (fst (verifyDomainOwnership fuel net cfg domain ast) = Some (Inr False)
      \<longleftrightarrow> (\<exists>e. fst (discoverZoneId fuel net cfg domain ast) = Some (Inl e))) \<and>
   fst (verifyDomainOwnership fuel net cfg domain ast) \<noteq> Some (Inl error) \<and>
   (zoneCache ast (extractRootDomain domain) = None \<and>
    \<not> truthy (options_zoneId cfg) \<and> \<not> truthy (env_CLOUDFLARE_ZONE_ID cfg) \<and>
    (\<forall>h n. isl (zones_by_name net h n)) \<and> (\<forall>h n. isl (zones_page net h n)) \<and>
    (\<forall>h a n. isl (account_zones net h a n)) \<and> (\<forall>h. isl (token_verify net h)) \<longrightarrow>
      fst (verifyDomainOwnership (Suc fuel) net cfg domain ast) = Some (Inr False)) \<and>
   (zoneCache ast (extractRootDomain domain) = None \<and>
    (truthy (options_zoneId cfg) \<or> truthy (env_CLOUDFLARE_ZONE_ID cfg)) \<and>
    zone_detail net (calls ast)
      (or_str (options_zoneId cfg) (or_str (env_CLOUDFLARE_ZONE_ID cfg) [])) = Inl error \<and>
    response_status error \<noteq> Some 404 \<longrightarrow>
      fst (verifyDomainOwnership (Suc fuel) net cfg domain ast) = Some (Inr True))"
proof -
  have cf_found: "fst (cf_verifyDomainOwnership net domain st) = Inr True"
    if "zones_by_name net (calls st) (cf_extractRootDomain domain) = Inr response"
      "success response" "result response \<noteq> []"
    using cf_getZoneId_found [OF that] cf_verifyDomainOwnership_true [of net domain st] by blast
  have cf_rejected: "fst (cf_verifyDomainOwnership net domain st)
        = Inl (DNSProviderError
                 (''Failed to verify domain ownership: '' @
                  ''Failed to get zone ID for '' @ domain @ '': '' @ message error)
                 500 (Some ''cloudflare''))"
    if r: "zones_by_name net (calls st) (cf_extractRootDomain domain) = Inl error"
      and n: "\<not> str_includes (''Failed to get zone ID for '' @ domain @ '': '' @ message error)
         ''Zone not found''"
  proof -
    let ?e = "DNSProviderError (''Failed to get zone ID for '' @ domain @ '': '' @ message error)
                    (or_nat (response_status error) 500) (Some ''cloudflare'')"
    have g: "fst (cf_getZoneId net domain st) = Inl ?e"
      using r by (rule cf_getZoneId_rejected)
    have "\<not> str_includes (message ?e) ''Zone not found''"
      unfolding message_DNSProviderError by (rule n)
    from cf_verifyDomainOwnership_other [OF g this] show ?thesis
      unfolding message_DNSProviderError .
  qed
  have cf_api: "fst (cf_verifyDomainOwnership net domain st)
        = Inl (DNSProviderError
                 (''Failed to verify domain ownership: '' @
                  ''Failed to get zone ID for '' @ domain @ '': '' @
                  or_str (errors0_message response) ''Unknown Cloudflare API error'')
                 500 (Some ''cloudflare''))"
    if r: "zones_by_name net (calls st) (cf_extractRootDomain domain) = Inr response"
      and f: "\<not> success response"
      and n: "\<not> str_includes (''Failed to get zone ID for '' @ domain @ '': '' @
           or_str (errors0_message response) ''Unknown Cloudflare API error'')
         ''Zone not found''"
  proof -
    let ?e = "DNSProviderError
                    (''Failed to get zone ID for '' @ domain @ '': '' @
                     or_str (errors0_message response) ''Unknown Cloudflare API error'')
                    500 (Some ''cloudflare'')"
    have g: "fst (cf_getZoneId net domain st) = Inl ?e"
      using r f by (rule cf_getZoneId_api_failure)
    have "\<not> str_includes (message ?e) ''Zone not found''"
      unfolding message_DNSProviderError by (rule n)
    from cf_verifyDomainOwnership_other [OF g this] show ?thesis
      unfolding message_DNSProviderError .
  qed
  have do_true: "fst (do_verifyDomainOwnership net domain st) = Inr True
      \<longleftrightarrow> (\<exists>response. do_get_domain net (calls st) domain = Inr response)"
    by (simp add: do_verifyDomainOwnership_cases split: sum.splits)
  have do_404: "fst (do_verifyDomainOwnership net domain st) = Inr False"
    if "do_get_domain net (calls st) domain = Inl error" "response_status error = Some 404"
    using that by (simp add: do_verifyDomainOwnership_cases)
  have do_other: "fst (do_verifyDomainOwnership net domain st)
        = Inl (do_wrap ''Failed to verify domain ownership: '' error)"
    if "do_get_domain net (calls st) domain = Inl error" "response_status error \<noteq> Some 404"
    using that by (simp add: do_verifyDomainOwnership_cases)
  have ad_false: "fst (verifyDomainOwnership (Suc fuel) net cfg domain ast) = Some (Inr False)"
    if "zoneCache ast (extractRootDomain domain) = None"
      "\<not> truthy (options_zoneId cfg)" "\<not> truthy (env_CLOUDFLARE_ZONE_ID cfg)"
      "\<forall>h n. isl (zones_by_name net h n)" "\<forall>h n. isl (zones_page net h n)"
      "\<forall>h a n. isl (account_zones net h a n)" "\<forall>h. isl (token_verify net h)"
    using discoverZoneId_all_rejected [OF that, of fuel]
      verifyDomainOwnership_false [of "Suc fuel" net cfg domain ast] by blast
  have ad_true: "fst (verifyDomainOwnership (Suc fuel) net cfg domain ast) = Some (Inr True)"
    if "zoneCache ast (extractRootDomain domain) = None"
      "truthy (options_zoneId cfg) \<or> truthy (env_CLOUDFLARE_ZONE_ID cfg)"
      "zone_detail net (calls ast)
         (or_str (options_zoneId cfg) (or_str (env_CLOUDFLARE_ZONE_ID cfg) [])) = Inl error"
      "response_status error \<noteq> Some 404"
    using discoverZoneId_unverified [OF that, of fuel]
      verifyDomainOwnership_true [of "Suc fuel" net cfg domain ast] by blast
  have c1: "(fst (cf_verifyDomainOwnership net domain st) = Inr True
      \<longleftrightarrow> (\<exists>zid. fst (cf_getZoneId net domain st) = Inr zid))"
    by (rule cf_verifyDomainOwnership_true)
  have c2: "(zones_by_name net (calls st) (cf_extractRootDomain domain) = Inr response \<and>
    success response \<and> result response \<noteq> [] \<longrightarrow>
      fst (cf_verifyDomainOwnership net domain st) = Inr True)"
    using cf_found by blast
  have c3: "(zones_by_name net (calls st) (cf_extractRootDomain domain) = Inr response \<and>
    success response \<and> result response = [] \<longrightarrow>
      fst (cf_verifyDomainOwnership net domain st) = Inr False)"
    using cf_verifyDomainOwnership_no_zone [of net st domain response] by blast
  have c4: "(fst (cf_getZoneId net domain st) = Inl e \<and> str_includes (message e) ''Zone not found'' \<longrightarrow>
      fst (cf_verifyDomainOwnership net domain st) = Inr False)"
    using cf_verifyDomainOwnership_zone_not_found [of net domain st e] by blast
  have c5: "(fst (cf_getZoneId net domain st) = Inl e \<and> \<not> str_includes (message e) ''Zone not found'' \<longrightarrow>
      fst (cf_verifyDomainOwnership net domain st)
        = Inl (DNSProviderError (''Failed to verify domain ownership: '' @ message e)
                 500 (Some ''cloudflare'')))"
    using cf_verifyDomainOwnership_other [of net domain st e] by blast
  have c6: "(zones_by_name net (calls st) (cf_extractRootDomain domain) = Inl error \<and>
    \<not> str_includes (''Failed to get zone ID for '' @ domain @ '': '' @ message error)
         ''Zone not found'' \<longrightarrow>
      fst (cf_verifyDomainOwnership net domain st)
        = Inl (DNSProviderError
                 (''Failed to verify domain ownership: '' @
                  ''Failed to get zone ID for '' @ domain @ '': '' @ message error)
                 500 (Some ''cloudflare'')))"
    using cf_rejected by blast
  have c7: "(zones_by_name net (calls st) (cf_extractRootDomain domain) = Inr response \<and>
    \<not> success response \<and>
    \<not> str_includes (''Failed to get zone ID for '' @ domain @ '': '' @
           or_str (errors0_message response) ''Unknown Cloudflare API error'')
         ''Zone not found'' \<longrightarrow>
      fst (cf_verifyDomainOwnership net domain st)
        = Inl (DNSProviderError
                 (''Failed to verify domain ownership: '' @
                  ''Failed to get zone ID for '' @ domain @ '': '' @
                  or_str (errors0_message response) ''Unknown Cloudflare API error'')
                 500 (Some ''cloudflare'')))"
    using cf_api by blast
  have c8: "(fst (do_verifyDomainOwnership net domain st) = Inr True
      \<longleftrightarrow> (\<exists>response. do_get_domain net (calls st) domain = Inr response))"
    by (rule do_true)
  have c9: "(do_get_domain net (calls st) domain = Inl error \<and> response_status error = Some 404 \<longrightarrow>
      fst (do_verifyDomainOwnership net domain st) = Inr False)"
    using do_404 by blast
  have c10: "(do_get_domain net (calls st) domain = Inl error \<and> response_status error \<noteq> Some 404 \<longrightarrow>
      fst (do_verifyDomainOwnership net domain st)
        = Inl (do_wrap ''Failed to verify domain ownership: '' error))"
    using do_other by blast
  have c11: "(fst (verifyDomainOwnership fuel net cfg domain ast) = Some (Inr True)
      \<longleftrightarrow> (\<exists>zid. fst (discoverZoneId fuel net cfg domain ast) = Some (Inr zid)))"
    by (rule verifyDomainOwnership_true)
  have c12: "(fst (verifyDomainOwnership fuel net cfg domain ast) = Some (Inr False)
      \<longleftrightarrow> (\<exists>e. fst (discoverZoneId fuel net cfg domain ast) = Some (Inl e)))"
    by (rule verifyDomainOwnership_false)
  have c13: "fst (verifyDomainOwnership fuel net cfg domain ast) \<noteq> Some (Inl error)"
    by (rule verifyDomainOwnership_never_throws)
  have c14: "(zoneCache ast (extractRootDomain domain) = None \<and>
    \<not> truthy (options_zoneId cfg) \<and> \<not> truthy (env_CLOUDFLARE_ZONE_ID cfg) \<and>
    (\<forall>h n. isl (zones_by_name net h n)) \<and> (\<forall>h n. isl (zones_page net h n)) \<and>
    (\<forall>h a n. isl (account_zones net h a n)) \<and> (\<forall>h. isl (token_verify net h)) \<longrightarrow>
      fst (verifyDomainOwnership (Suc fuel) net cfg domain ast) = Some (Inr False))"
    using ad_false by blast
  have c15: "(zoneCache ast (extractRootDomain domain) = None \<and>
    (truthy (options_zoneId cfg) \<or> truthy (env_CLOUDFLARE_ZONE_ID cfg)) \<and>
    zone_detail net (calls ast)
      (or_str (options_zoneId cfg) (or_str (env_CLOUDFLARE_ZONE_ID cfg) [])) = Inl error \<and>
    response_status error \<noteq> Some 404 \<longrightarrow>
      fst (verifyDomainOwnership (Suc fuel) net cfg domain ast) = Some (Inr True))"
    using ad_true by blast
  show ?thesis
    by (intro conjI) (fact c1 c2 c3 c4 c5 c6 c7 c8 c9 c10 c11 c12 c13 c14 c15)+
qed


theorem verifyDomainOwnership_by_provider_witness:
  "fst (cf_verifyDomainOwnership one_zone ''example.com'' new_client) = Inr True \<and>
   fst (cf_verifyDomainOwnership empty_account ''example.com'' new_client) = Inr False \<and>
   fst (cf_verifyDomainOwnership offline ''example.com'' new_client)
     = Inl (DNSProviderError
              (''Failed to verify domain ownership: '' @
               ''Failed to get zone ID for '' @ ''example.com'' @ '': '' @ ''Network Error'')
              500 (Some ''cloudflare'')) \<and>
   fst (cf_verifyDomainOwnership api_failure ''example.com'' new_client)
     = Inl (DNSProviderError
              (''Failed to verify domain ownership: '' @
               ''Failed to get zone ID for '' @ ''example.com'' @ '': '' @
               ''Invalid request headers'')
              500 (Some ''cloudflare'')) \<and>
   fst (do_verifyDomainOwnership no_domains ''example.com'' new_client) = Inr False \<and>
   fst (do_verifyDomainOwnership offline ''example.com'' new_client)
     = Inl (do_wrap ''Failed to verify domain ownership: '' network_error) \<and>
   fst (verifyDomainOwnership (Suc 0) offline no_config ''example.com'' (new_adaptive no_config))
     = Some (Inr False) \<and>
   fst (verifyDomainOwnership (Suc 0) offline with_zone_id ''example.com''
          (new_adaptive with_zone_id))
     = Some (Inr True)"
proof -
  have r: "cf_extractRootDomain ''example.com'' = ''example.com''"
    by (simp add: cf_extractRootDomain_def)
  have ra: "extractRootDomain ''example.com'' = ''example.com''"
    by (simp add: extractRootDomain_def)
  have m: "message network_error = ''Network Error''"
    by (simp add: network_error_def Error_def)
  have w1: "fst (cf_verifyDomainOwnership one_zone ''example.com'' new_client) = Inr True"
  proof -
    have "zones_by_name one_zone (calls new_client) ''example.com''
        = Inr \<lparr>success = True,
               result = [\<lparr>zone_id = ''zone-1'', zone_name = ''example.com'',
                          zone_account_id = None\<rparr>],
               errors0_message = None\<rparr>"
      by (simp add: one_zone_def offline_def)
    then show ?thesis
      using verifyDomainOwnership_by_provider
        [where net = one_zone and domain = "''example.com''" and st = new_client
           and response = "\<lparr>success = True,
               result = [\<lparr>zone_id = ''zone-1'', zone_name = ''example.com'',
                          zone_account_id = None\<rparr>],
               errors0_message = None\<rparr>"]
      unfolding r by simp
  qed
  have w2: "fst (cf_verifyDomainOwnership empty_account ''example.com'' new_client) = Inr False"
  proof -
    have "zones_by_name empty_account (calls new_client) ''example.com''
        = Inr \<lparr>success = True, result = [], errors0_message = None\<rparr>"
      by (simp add: empty_account_def offline_def)
    then show ?thesis
      using verifyDomainOwnership_by_provider
        [where net = empty_account and domain = "''example.com''" and st = new_client
           and response = "\<lparr>success = True, result = [], errors0_message = None\<rparr>"]
      unfolding r by simp
  qed
  have w3: "fst (cf_verifyDomainOwnership offline ''example.com'' new_client)
     = Inl (DNSProviderError
              (''Failed to verify domain ownership: '' @
               ''Failed to get zone ID for '' @ ''example.com'' @ '': '' @ ''Network Error'')
              500 (Some ''cloudflare''))"
  proof -
    have o: "zones_by_name offline (calls new_client) ''example.com'' = Inl network_error"
      by (simp add: offline_def)
    have n: "\<not> str_includes (''Failed to get zone ID for '' @ ''example.com'' @ '': '' @
              message network_error) ''Zone not found''"
      by (simp add: m)
    show ?thesis
      using verifyDomainOwnership_by_provider
        [where net = offline and domain = "''example.com''" and st = new_client
           and error = network_error]
      unfolding r m [symmetric] using o n by simp
  qed
  have w4: "fst (cf_verifyDomainOwnership api_failure ''example.com'' new_client)
     = Inl (DNSProviderError
              (''Failed to verify domain ownership: '' @
               ''Failed to get zone ID for '' @ ''example.com'' @ '': '' @
               ''Invalid request headers'')
              500 (Some ''cloudflare''))"
  proof -
    let ?resp = "\<lparr>success = False, result = ([] :: cf_zone list),
                  errors0_message = Some ''Invalid request headers''\<rparr>"
    have o: "zones_by_name api_failure (calls new_client) ''example.com'' = Inr ?resp"
      by (simp add: api_failure_def offline_def)
    have u: "or_str (errors0_message ?resp) ''Unknown Cloudflare API error''
        = ''Invalid request headers''"
      by (simp add: or_str_def)
    have n: "\<not> str_includes (''Failed to get zone ID for '' @ ''example.com'' @ '': '' @
              ''Invalid request headers'') ''Zone not found''"
      by simp
    show ?thesis
      using verifyDomainOwnership_by_provider
        [where net = api_failure and domain = "''example.com''" and st = new_client
           and response = ?resp]
      unfolding r u using o n by simp
  qed
  have w5: "fst (do_verifyDomainOwnership no_domains ''example.com'' new_client) = Inr False"
  proof -
    have d4: "do_get_domain no_domains (calls new_client) ''example.com'' = Inl not_found_404"
      by (simp add: no_domains_def offline_def)
    have s4: "response_status not_found_404 = Some 404"
      by (simp add: not_found_404_def)
    show ?thesis
      using verifyDomainOwnership_by_provider
        [where net = no_domains and domain = "''example.com''" and st = new_client
           and error = not_found_404]
        d4 s4 by simp
  qed
  have w6: "fst (do_verifyDomainOwnership offline ''example.com'' new_client)
     = Inl (do_wrap ''Failed to verify domain ownership: '' network_error)"
  proof -
    have d0: "do_get_domain offline (calls new_client) ''example.com'' = Inl network_error"
      by (simp add: offline_def)
    have s0: "response_status network_error \<noteq> Some 404"
      by (simp add: network_error_def Error_def)
    show ?thesis
      using verifyDomainOwnership_by_provider
        [where net = offline and domain = "''example.com''" and st = new_client
           and error = network_error]
        d0 s0 by simp
  qed
  have w7: "fst (verifyDomainOwnership (Suc 0) offline no_config ''example.com''
                  (new_adaptive no_config)) = Some (Inr False)"
  proof -
    have c: "zoneCache (new_adaptive no_config) ''example.com'' = None"
      by (simp add: new_adaptive_def)
    have t: "\<not> truthy (options_zoneId no_config)" "\<not> truthy (env_CLOUDFLARE_ZONE_ID no_config)"
      by (simp_all add: no_config_def truthy_def)
    have a: "\<forall>h n. isl (zones_by_name offline h n)" "\<forall>h n. isl (zones_page offline h n)"
      "\<forall>h a n. isl (account_zones offline h a n)" "\<forall>h. isl (token_verify offline h)"
      by (simp_all add: offline_def)
    note all_rejected = verifyDomainOwnership_by_provider
        [where net = offline and domain = "''example.com''" and cfg = no_config
           and ast = "new_adaptive no_config" and fuel = 0,
         THEN conjunct2, THEN conjunct2, THEN conjunct2, THEN conjunct2, THEN conjunct2,
         THEN conjunct2, THEN conjunct2, THEN conjunct2, THEN conjunct2, THEN conjunct2,
         THEN conjunct2, THEN conjunct2, THEN conjunct2, THEN conjunct1]
    show ?thesis
      by (rule mp [OF all_rejected]) (simp add: ra c t a)
  qed
  have w8: "fst (verifyDomainOwnership (Suc 0) offline with_zone_id ''example.com''
                  (new_adaptive with_zone_id)) = Some (Inr True)"
  proof -
    have c: "zoneCache (new_adaptive with_zone_id) ''example.com'' = None"
      by (simp add: new_adaptive_def)
    have t: "truthy (options_zoneId with_zone_id) \<or> truthy (env_CLOUDFLARE_ZONE_ID with_zone_id)"
      by (simp add: with_zone_id_def no_config_def truthy_def)
    have z: "zone_detail offline (calls (new_adaptive with_zone_id))
        (or_str (options_zoneId with_zone_id) (or_str (env_CLOUDFLARE_ZONE_ID with_zone_id) []))
        = Inl network_error"
      by (simp add: offline_def)
    have s0: "response_status network_error \<noteq> Some 404"
      by (simp add: network_error_def Error_def)
    note unverified = verifyDomainOwnership_by_provider
        [where net = offline and domain = "''example.com''" and cfg = with_zone_id
           and ast = "new_adaptive with_zone_id" and fuel = 0 and error = network_error,
         THEN conjunct2, THEN conjunct2, THEN conjunct2, THEN conjunct2, THEN conjunct2,
         THEN conjunct2, THEN conjunct2, THEN conjunct2, THEN conjunct2, THEN conjunct2,
         THEN conjunct2, THEN conjunct2, THEN conjunct2, THEN conjunct2]
    show ?thesis
      by (rule mp [OF unverified]) (simp add: ra c t z s0)
  qed
  show ?thesis
    by (intro conjI) (fact w1 w2 w3 w4 w5 w6 w7 w8)+
qed

text \<open>The adaptive provider on an unreachable network: no request gets a response, and
  the answer is false, not an error.\<close>

theorem verifyDomainOwnership_counterexample:
  "zones_by_name offline [] ''example.com'' = Inl network_error \<and>
   zones_page offline [CF_ZonesByName ''example.com''] 100 = Inl network_error \<and>
   response_status network_error = None \<and>
   verifyDomainOwnership 1 offline no_config ''example.com'' (new_adaptive no_config)
     = (Some (Inr False),
        \<lparr>calls = [CF_ZonesByName ''example.com'', CF_ZonesPage 100, CF_TokenVerify],
         zoneCache = Map.empty, accountId = None, discoveryAttempts = 0\<rparr>)"
proof -
  have r: "extractRootDomain ''example.com'' = ''example.com''"
    by (simp add: extractRootDomain_def)
  have d: "discoverZoneId 1 offline no_config ''example.com'' (new_adaptive no_config)
      = (Some (Inl (zone_not_found ''example.com''
                      \<lparr>calls = [CF_ZonesByName ''example.com'', CF_ZonesPage 100, CF_TokenVerify],
                       zoneCache = Map.empty, accountId = None, discoveryAttempts = 0\<rparr>)),
         \<lparr>calls = [CF_ZonesByName ''example.com'', CF_ZonesPage 100, CF_TokenVerify],
          zoneCache = Map.empty, accountId = None, discoveryAttempts = 0\<rparr>)"
    unfolding One_nat_def discoverZoneId.simps r
    by (simp add: strategy1_def strategy2_def strategy3_def strategy4_def strategy5_def
        no_config_def new_adaptive_def truthy_def or_opt_def offline_def issue_def Let_def)
  show ?thesis
    unfolding verifyDomainOwnership_def d
    by (simp add: offline_def network_error_def Error_def)
qed

section \<open>The adaptive provider: retries of createRecord\<close>

lemma strategy1_attempts:
  "discoveryAttempts (snd (strategy1 net cfg rootDomain st)) = discoveryAttempts st"
  by (simp add: strategy1_def Let_def issue_def cacheZoneId_def split: sum.splits)

lemma strategy2_attempts:
  "discoveryAttempts (snd (strategy2 net rootDomain st)) = discoveryAttempts st"
  by (simp add: strategy2_def Let_def issue_def cacheZoneId_def split: sum.splits)

lemma strategy3_attempts:
  "discoveryAttempts (snd (strategy3 net domain rootDomain st)) = discoveryAttempts st"
  by (simp add: strategy3_def Let_def issue_def cacheZoneId_def split: sum.splits option.splits)

lemma strategy4_attempts:
  "discoveryAttempts (snd (strategy4 net rootDomain st)) = discoveryAttempts st"
  by (simp add: strategy4_def Let_def issue_def cacheZoneId_def split: sum.splits option.splits)

lemma strategy5_attempts:
  "discoveryAttempts (snd (strategy5 net st)) = discoveryAttempts st"
  by (simp add: strategy5_def Let_def issue_def split: sum.splits option.splits)

lemma discoverZoneId_attempts:
  "discoveryAttempts (snd (discoverZoneId fuel net cfg domain st)) = discoveryAttempts st"
proof (induction fuel arbitrary: st)
  case 0
  show ?case by (simp add: discoverZoneId.simps)
next
  case (Suc fuel)
  let ?root = "extractRootDomain domain"
  obtain r1 st1 where s1: "strategy1 net cfg ?root st = (r1, st1)" by (cases "strategy1 net cfg ?root st")
  obtain r2 st2 where s2: "strategy2 net ?root st1 = (r2, st2)" by (cases "strategy2 net ?root st1")
  obtain r3 st3 where s3: "strategy3 net domain ?root st2 = (r3, st3)" by (cases "strategy3 net domain ?root st2")
  obtain r4 st4 where s4: "strategy4 net ?root st3 = (r4, st4)" by (cases "strategy4 net ?root st3")
  obtain r5 st5 where s5: "strategy5 net st4 = (r5, st5)" by (cases "strategy5 net st4")
  have a1: "discoveryAttempts st1 = discoveryAttempts st"
    using strategy1_attempts [of net cfg ?root st] s1 by simp
  have a2: "discoveryAttempts st2 = discoveryAttempts st"
    using strategy2_attempts [of net ?root st1] s2 a1 by simp
  have a3: "discoveryAttempts st3 = discoveryAttempts st"
    using strategy3_attempts [of net domain ?root st2] s3 a2 by simp
  have a4: "discoveryAttempts st4 = discoveryAttempts st"
    using strategy4_attempts [of net ?root st3] s4 a3 by simp
  have a5: "discoveryAttempts st5 = discoveryAttempts st"
    using strategy5_attempts [of net st4] s5 a4 by simp
  have a6: "discoveryAttempts (snd (discoverZoneId fuel net cfg domain st5)) = discoveryAttempts st"
    using Suc.IH [of st5] a5 by simp
  show ?case
    using a1 a2 a3 a4 a5 a6
    by (simp add: discoverZoneId.simps Let_def s1 s2 s3 s4 s5 split: option.splits bool.splits)
qed

lemma createRecord_try_attempts:
  "discoveryAttempts (snd (createRecord_try fuel net cfg domain record st)) = 0"
proof -
  obtain r st1 where d: "discoverZoneId fuel net cfg domain (st\<lparr>discoveryAttempts := 0\<rparr>) = (r, st1)"
    by (cases "discoverZoneId fuel net cfg domain (st\<lparr>discoveryAttempts := 0\<rparr>)")
  have "discoveryAttempts st1 = 0"
    using discoverZoneId_attempts [of fuel net cfg domain "st\<lparr>discoveryAttempts := 0\<rparr>"] d by simp
  then show ?thesis
    by (simp add: createRecord_try_def d issue_def Let_def split: option.splits sum.splits)
qed

text \<open>On every network: an error whose message includes \<^verbatim>\<open>zone\<close> is never thrown to the
  caller of \<^verbatim>\<open>createRecord\<close>; the errors it throws come from causes without it.\<close>

lemma createRecord_zone_error_never_surfaces:
  "createRecord fuel net cfg domain record st = (Some (Inl e), st') \<Longrightarrow>
   \<exists>cause. \<not> str_includes (message cause) ''zone'' \<and> e = createRecord_rethrown cause"
proof (induction fuel arbitrary: st)
  case 0
  then show ?case by (simp add: createRecord.simps)
next
  case (Suc fuel)
  obtain r st1 where t: "createRecord_try (Suc fuel) net cfg domain record st = (r, st1)"
    by (cases "createRecord_try (Suc fuel) net cfg domain record st")
  have n: "discoveryAttempts st1 = 0"
    using createRecord_try_attempts [of "Suc fuel" net cfg domain "record" st] t by simp
  show ?case
  proof (cases r)
    case None
    with Suc.prems t show ?thesis by (simp add: createRecord.simps)
  next
    case (Some x)
    show ?thesis
    proof (cases x)
      case (Inr res)
      with Suc.prems t Some show ?thesis by (simp add: createRecord.simps)
    next
      case (Inl error)
      show ?thesis
      proof (cases "str_includes (message error) ''zone''")
        case True
        with Suc.prems t Some Inl n
        have "createRecord fuel net cfg domain record
                (st1\<lparr>discoveryAttempts := discoveryAttempts st1 + 1, zoneCache := Map.empty\<rparr>)
              = (Some (Inl e), st')"
          by (simp add: createRecord.simps)
        then show ?thesis by (rule Suc.IH)
      next
        case False
        with Suc.prems t Some Inl have "e = createRecord_rethrown error"
          by (simp add: createRecord.simps)
        with False show ?thesis by blast
      qed
    qed
  qed
qed

lemma zone_not_found_includes_zone:
  "str_includes (message (zone_not_found rootDomain st)) ''zone''"
proof -
  have "message (zone_not_found rootDomain st)
        = ''Unable to find '' @ ''zone'' @
          ('' for '' @ rootDomain @ '' after trying '' @
           string_of_nat (discoveryAttempts st + 1) @ '' strategies. '' @
           ''Please ensure the domain is added to Cloudflare and the API token has proper permissions.'')"
    by (simp add: zone_not_found_def DNSProviderError_def)
  then show ?thesis
    using str_includes_append by metis
qed

lemma discoverZoneId_offline:
  assumes "zoneCache st (extractRootDomain domain) = None" and "\<not> truthy (accountId st)"
  shows "discoverZoneId (Suc fuel) offline no_config domain st
           = (Some (Inl (zone_not_found (extractRootDomain domain)
                 (issue CF_TokenVerify (issue (CF_ZonesPage 100)
                    (issue (CF_ZonesByName (extractRootDomain domain)) st))))),
              issue CF_TokenVerify (issue (CF_ZonesPage 100)
                (issue (CF_ZonesByName (extractRootDomain domain)) st)))"
proof -
  let ?root = "extractRootDomain domain"
  let ?st2 = "issue (CF_ZonesByName ?root) st"
  let ?st3 = "issue (CF_ZonesPage 100) ?st2"
  let ?st5 = "issue CF_TokenVerify ?st3"
  have s1: "strategy1 offline no_config ?root st = (None, st)"
    by (simp add: strategy1_def no_config_def truthy_def)
  have s2: "strategy2 offline ?root st = (None, ?st2)"
    by (simp add: strategy2_def offline_def Let_def)
  have s3: "strategy3 offline domain ?root ?st2 = (None, ?st3)"
    by (simp add: strategy3_def offline_def Let_def)
  have a: "accountId ?st3 = accountId st"
    by (simp add: issue_def)
  have s4: "strategy4 offline ?root ?st3 = (None, ?st3)"
    using assms(2) unfolding strategy4_def a
    by (simp add: truthy_def split: option.splits)
  have s5: "strategy5 offline ?st3 = (False, ?st5)"
    using assms(2) unfolding strategy5_def a
    by (simp add: offline_def Let_def)
  show ?thesis
    unfolding discoverZoneId.simps Let_def
    by (simp add: assms(1) s1 s2 s3 s4 s5)
qed

lemma createRecord_offline_step:
  assumes "zoneCache st (extractRootDomain domain) = None" and "\<not> truthy (accountId st)"
  shows "createRecord (Suc fuel) offline no_config domain record st
           = createRecord fuel offline no_config domain record
               ((issue CF_TokenVerify (issue (CF_ZonesPage 100)
                   (issue (CF_ZonesByName (extractRootDomain domain))
                      (st\<lparr>discoveryAttempts := 0\<rparr>))))
                \<lparr>discoveryAttempts := 1, zoneCache := Map.empty\<rparr>)"
proof -
  let ?st0 = "st\<lparr>discoveryAttempts := 0\<rparr>"
  let ?st5 = "issue CF_TokenVerify (issue (CF_ZonesPage 100)
                (issue (CF_ZonesByName (extractRootDomain domain)) ?st0))"
  have d: "discoverZoneId (Suc fuel) offline no_config domain ?st0
      = (Some (Inl (zone_not_found (extractRootDomain domain) ?st5)), ?st5)"
    using assms by (intro discoverZoneId_offline) simp_all
  have t: "createRecord_try (Suc fuel) offline no_config domain record st
      = (Some (Inl (zone_not_found (extractRootDomain domain) ?st5)), ?st5)"
    unfolding createRecord_try_def d by simp
  have n: "discoveryAttempts ?st5 = 0"
    by (simp add: issue_def)
  show ?thesis
    unfolding createRecord.simps t
    by (simp add: zone_not_found_includes_zone n)
qed

lemma createRecord_offline_never_returns:
  assumes "zoneCache st (extractRootDomain domain) = None" and "\<not> truthy (accountId st)"
  shows "fst (createRecord fuel offline no_config domain record st) = None \<and>
         length (calls (snd (createRecord fuel offline no_config domain record st)))
           = length (calls st) + 3 * fuel"
  using assms
proof (induction fuel arbitrary: st)
  case 0
  show ?case by (simp add: createRecord.simps)
next
  case (Suc fuel)
  let ?next = "(issue CF_TokenVerify (issue (CF_ZonesPage 100)
                   (issue (CF_ZonesByName (extractRootDomain domain))
                      (st\<lparr>discoveryAttempts := 0\<rparr>))))
                \<lparr>discoveryAttempts := 1, zoneCache := Map.empty\<rparr>"
  have step: "createRecord (Suc fuel) offline no_config domain record st
      = createRecord fuel offline no_config domain record ?next"
    using Suc.prems by (rule createRecord_offline_step)
  have "zoneCache ?next (extractRootDomain domain) = None"
    by simp
  moreover have "\<not> truthy (accountId ?next)"
    using Suc.prems(2) by (simp add: issue_def)
  ultimately have "fst (createRecord fuel offline no_config domain record ?next) = None \<and>
         length (calls (snd (createRecord fuel offline no_config domain record ?next)))
           = length (calls ?next) + 3 * fuel"
    by (rule Suc.IH)
  moreover have "length (calls ?next) = length (calls st) + 3"
    by (simp add: issue_def)
  ultimately show ?case
    unfolding step by simp
qed

text \<open>
  C1 (the code at the failing input). On a network where no request gets a response, a
  new adaptive provider with no zone id and no account id never returns from
  \<^verbatim>\<open>createRecord\<close>: whatever the fuel, the model runs out of it, and it has then issued
  three requests for each unit of fuel, a full discovery for each retry. The counter is
  set to zero at the start of every call, the retries included, so the test against 2
  never fails.
\<close>

theorem createRecord_retries_without_bound:
  "fst (createRecord fuel offline no_config domain record (new_adaptive no_config)) = None \<and>
   length (calls (snd (createRecord fuel offline no_config domain record (new_adaptive no_config))))
     = 3 * fuel"
proof -
  have "zoneCache (new_adaptive no_config) (extractRootDomain domain) = None"
    by (simp add: new_adaptive_def)
  moreover have "\<not> truthy (accountId (new_adaptive no_config))"
    by (simp add: new_adaptive_def no_config_def or_opt_def truthy_def)
  ultimately show ?thesis
    using createRecord_offline_never_returns
      [of "new_adaptive no_config" domain fuel "record"]
    by (simp add: new_adaptive_def)
qed

section \<open>Listing a domain whose zone is missing\<close>

text \<open>
  What each Cloudflare provider throws when the account has no zone for the domain. The
  plain provider's message includes \<^verbatim>\<open>not found\<close>, so the service's \<^verbatim>\<open>listRecords\<close> turns it
  into the empty list. The adaptive provider's error has status 500 (the error of the
  discovery has no \<^verbatim>\<open>response\<close>) and a message without \<^verbatim>\<open>not found\<close> or \<^verbatim>\<open>does not exist\<close>:
  it is not of the not-found class, and the service rethrows it.
\<close>

lemma cf_listRecords_missing_zone:
  "\<exists>e. fst (cf_listRecords empty_account ''example.com'' None new_client) = Inl e \<and>
       not_found_class e"
proof -
  have r: "cf_extractRootDomain ''example.com'' = ''example.com''"
    by (simp add: cf_extractRootDomain_def)
  have "fst (cf_listRecords empty_account ''example.com'' None new_client)
      = Inl (DNSProviderError
          (''Failed to list DNS records: '' @ ''Failed to get zone ID for example.com: '' @
           ''Zone not found for domain: example.com. '' @
           ''Make sure the domain is added to your Cloudflare account.'')
          500 (Some ''cloudflare''))"
    by (simp add: cf_listRecords_def cf_getZoneId_def r empty_account_def offline_def Let_def
        Error_def DNSProviderError_def or_str_def or_nat_def new_client_def)
  moreover have "not_found_class (DNSProviderError
          (''Failed to list DNS records: '' @ ''Failed to get zone ID for example.com: '' @
           ''Zone not found for domain: example.com. '' @
           ''Make sure the domain is added to your Cloudflare account.'')
          500 (Some ''cloudflare''))"
    by (simp add: not_found_class_def DNSProviderError_def)
  ultimately show ?thesis
    by blast
qed

lemma listRecords_missing_zone:
  "\<exists>e. fst (listRecords 1 empty_account no_config ''example.com'' None (new_adaptive no_config))
         = Some (Inl e) \<and>
       statusCode e = Some 500 \<and> \<not> not_found_class e"
proof -
  have r: "extractRootDomain ''example.com'' = ''example.com''"
    by (simp add: extractRootDomain_def)
  have d: "discoverZoneId 1 empty_account no_config ''example.com'' (new_adaptive no_config)
      = (Some (Inl (zone_not_found ''example.com''
                      \<lparr>calls = [CF_ZonesByName ''example.com'', CF_ZonesPage 100, CF_TokenVerify],
                       zoneCache = Map.empty, accountId = None, discoveryAttempts = 0\<rparr>)),
         \<lparr>calls = [CF_ZonesByName ''example.com'', CF_ZonesPage 100, CF_TokenVerify],
          zoneCache = Map.empty, accountId = None, discoveryAttempts = 0\<rparr>)"
    unfolding One_nat_def discoverZoneId.simps r
    by (simp add: strategy1_def strategy2_def strategy3_def strategy4_def strategy5_def
        no_config_def new_adaptive_def truthy_def or_opt_def empty_account_def offline_def
        issue_def Let_def)
  have l: "fst (listRecords 1 empty_account no_config ''example.com'' None (new_adaptive no_config))
     = Some (Inl (DNSProviderError
         (''Failed to list DNS records: '' @
          ''Unable to find zone for example.com after trying 1 strategies. '' @
          ''Please ensure the domain is added to Cloudflare and the API token has proper permissions.'')
         500 (Some ''cloudflare'')))"
    unfolding listRecords_def d
    by (simp add: zone_not_found_def DNSProviderError_def or_str_def or_nat_def
        string_of_nat.simps digit_char_def)
  have n: "\<not> not_found_class (DNSProviderError
         (''Failed to list DNS records: '' @
          ''Unable to find zone for example.com after trying 1 strategies. '' @
          ''Please ensure the domain is added to Cloudflare and the API token has proper permissions.'')
         500 (Some ''cloudflare''))"
    by (simp add: not_found_class_def DNSProviderError_def)
  have c: "statusCode (DNSProviderError
         (''Failed to list DNS records: '' @
          ''Unable to find zone for example.com after trying 1 strategies. '' @
          ''Please ensure the domain is added to Cloudflare and the API token has proper permissions.'')
         500 (Some ''cloudflare'')) = Some 500"
    by (simp add: DNSProviderError_def)
  show ?thesis
    using l n c by blast
qed

text \<open>Whatever the network: the only error the discovery throws is its own, of status 404;
  the adaptive \<^verbatim>\<open>listRecords\<close> rethrows it with status 500, since the status it copies is
  that of the error's \<^verbatim>\<open>response\<close>, which this error does not have.\<close>

lemma discoverZoneId_throws_zone_not_found:
  "discoverZoneId fuel net cfg domain st = (Some (Inl error), st') \<Longrightarrow>
   error = zone_not_found (extractRootDomain domain) st'"
proof (induction fuel arbitrary: st)
  case 0
  then show ?case by (simp add: discoverZoneId.simps)
next
  case (Suc fuel)
  let ?root = "extractRootDomain domain"
  obtain r1 st1 where s1: "strategy1 net cfg ?root st = (r1, st1)" by (cases "strategy1 net cfg ?root st")
  obtain r2 st2 where s2: "strategy2 net ?root st1 = (r2, st2)" by (cases "strategy2 net ?root st1")
  obtain r3 st3 where s3: "strategy3 net domain ?root st2 = (r3, st3)" by (cases "strategy3 net domain ?root st2")
  obtain r4 st4 where s4: "strategy4 net ?root st3 = (r4, st4)" by (cases "strategy4 net ?root st3")
  obtain r5 st5 where s5: "strategy5 net st4 = (r5, st5)" by (cases "strategy5 net st4")
  show ?case
  proof (cases "r5 \<and> zoneCache st ?root = None \<and> r1 = None \<and> r2 = None \<and> r3 = None \<and> r4 = None")
    case True
    with Suc.prems s1 s2 s3 s4 s5
    have "discoverZoneId fuel net cfg domain st5 = (Some (Inl error), st')"
      by (simp add: discoverZoneId.simps Let_def)
    then show ?thesis by (rule Suc.IH)
  next
    case False
    with Suc.prems s1 s2 s3 s4 s5 show ?thesis
      by (auto simp add: discoverZoneId.simps Let_def split: option.splits bool.splits)
  qed
qed

lemma listRecords_discovery_error:
  assumes "discoverZoneId fuel net cfg domain st = (Some (Inl error), st1)"
  shows "fst (listRecords fuel net cfg domain type st)
           = Some (Inl (DNSProviderError (''Failed to list DNS records: '' @ message error)
                          500 (Some ''cloudflare''))) \<and>
         statusCode error = Some 404"
proof -
  have e: "error = zone_not_found (extractRootDomain domain) st1"
    using assms by (rule discoverZoneId_throws_zone_not_found)
  have "response_status error = None" "response_message error = None" "statusCode error = Some 404"
    unfolding e by (simp_all add: zone_not_found_def DNSProviderError_def)
  then show ?thesis
    by (simp add: listRecords_def assms or_str_def or_nat_def)
qed


lemma discoverZoneId_no_zone_account:
  "discoverZoneId 2 no_zone_account no_config ''example.com'' (new_adaptive no_config)
     = (Some (Inl (zone_not_found ''example.com''
          \<lparr>calls = [CF_ZonesByName ''example.com'', CF_ZonesPage 100, CF_TokenVerify, CF_User,
                    CF_ZonesByName ''example.com'', CF_ZonesPage 100,
                    CF_AccountZones ''account-1'' ''example.com''],
           zoneCache = Map.empty, accountId = Some ''account-1'', discoveryAttempts = 0\<rparr>)),
        \<lparr>calls = [CF_ZonesByName ''example.com'', CF_ZonesPage 100, CF_TokenVerify, CF_User,
                  CF_ZonesByName ''example.com'', CF_ZonesPage 100,
                  CF_AccountZones ''account-1'' ''example.com''],
         zoneCache = Map.empty, accountId = Some ''account-1'', discoveryAttempts = 0\<rparr>)"
proof -
  have r: "extractRootDomain ''example.com'' = ''example.com''"
    by (simp add: extractRootDomain_def)
  show ?thesis
    unfolding numeral_2_eq_2 discoverZoneId.simps r
    by (simp add: strategy1_def strategy2_def strategy3_def strategy4_def strategy5_def
        no_config_def new_adaptive_def truthy_def or_opt_def no_zone_account_def no_zones_def
        offline_def issue_def Let_def)
qed

text \<open>
  C4 (the code at the failing input). A Cloudflare account that answers every request and
  has no zone for \<^verbatim>\<open>example.com\<close>: the discovery throws its error of status 404, the
  adaptive provider's listing rethrows it with status 500 and a message without
  \<^verbatim>\<open>not found\<close> or \<^verbatim>\<open>does not exist\<close>, and \<^verbatim>\<open>DNSService.listRecords\<close> over the adaptive
  provider throws that error, where over the DigitalOcean provider a domain that does not
  exist gives the empty list.
\<close>

theorem svc_listRecords_adaptive_missing_zone:
  "fst (discoverZoneId 2 no_zone_account no_config ''example.com'' (new_adaptive no_config))
     = Some (Inl (DNSProviderError
         (''Unable to find zone for example.com after trying 1 strategies. '' @
          ''Please ensure the domain is added to Cloudflare and the API token has proper permissions.'')
         404 (Some ''cloudflare''))) \<and>
   fst (listRecords 2 no_zone_account no_config ''example.com'' None (new_adaptive no_config))
     = Some (Inl (DNSProviderError
         (''Failed to list DNS records: '' @
          ''Unable to find zone for example.com after trying 1 strategies. '' @
          ''Please ensure the domain is added to Cloudflare and the API token has proper permissions.'')
         500 (Some ''cloudflare''))) \<and>
   fst (svc_listRecords construct_adaptive (adaptive_ops 2 no_zone_account no_config)
          ''example.com'' ''cloudflare'' ''token'' None new_service)
     = Some (Inl (DNSProviderError
         (''Failed to list DNS records: '' @
          ''Unable to find zone for example.com after trying 1 strategies. '' @
          ''Please ensure the domain is added to Cloudflare and the API token has proper permissions.'')
         500 (Some ''cloudflare''))) \<and>
   fst (svc_listRecords construct_digitalocean (digitalocean_ops no_domains)
          ''example.com'' ''digitalocean'' ''token'' None new_service)
     = Some (Inr [])"
proof -
  note d = discoverZoneId_no_zone_account
  have z: "fst (discoverZoneId 2 no_zone_account no_config ''example.com'' (new_adaptive no_config))
     = Some (Inl (DNSProviderError
         (''Unable to find zone for example.com after trying 1 strategies. '' @
          ''Please ensure the domain is added to Cloudflare and the API token has proper permissions.'')
         404 (Some ''cloudflare'')))"
    unfolding d by (simp add: zone_not_found_def string_of_nat.simps digit_char_def)
  have l: "fst (listRecords 2 no_zone_account no_config ''example.com'' None (new_adaptive no_config))
     = Some (Inl (DNSProviderError
         (''Failed to list DNS records: '' @
          ''Unable to find zone for example.com after trying 1 strategies. '' @
          ''Please ensure the domain is added to Cloudflare and the API token has proper permissions.'')
         500 (Some ''cloudflare'')))"
    using listRecords_discovery_error [OF d, of None]
    by (simp add: zone_not_found_def DNSProviderError_def string_of_nat.simps digit_char_def)
  obtain st1 where l2: "listRecords 2 no_zone_account no_config ''example.com'' None
        (new_adaptive no_config)
      = (Some (Inl (DNSProviderError
         (''Failed to list DNS records: '' @
          ''Unable to find zone for example.com after trying 1 strategies. '' @
          ''Please ensure the domain is added to Cloudflare and the API token has proper permissions.'')
         500 (Some ''cloudflare''))), st1)"
    using l by (cases "listRecords 2 no_zone_account no_config ''example.com'' None
        (new_adaptive no_config)") simp
  have n: "\<not> not_found_class (DNSProviderError
         (''Failed to list DNS records: '' @
          ''Unable to find zone for example.com after trying 1 strategies. '' @
          ''Please ensure the domain is added to Cloudflare and the API token has proper permissions.'')
         500 (Some ''cloudflare''))"
    by (simp add: not_found_class_def DNSProviderError_def)
  have g: "getDNSProvider construct_adaptive ''cloudflare'' ''token'' new_service
      = (Inr (cacheKey ''cloudflare'' ''token'', new_adaptive no_config),
         store (cacheKey ''cloudflare'' ''token'') (new_adaptive no_config) new_service)"
    by (rule getDNSProvider_new) (simp_all add: new_service_def construct_adaptive_def)
  have p: "p_listRecords (adaptive_ops 2 no_zone_account no_config) ''example.com'' None
        (new_adaptive no_config)
      = (Some (Inl (DNSProviderError
         (''Failed to list DNS records: '' @
          ''Unable to find zone for example.com after trying 1 strategies. '' @
          ''Please ensure the domain is added to Cloudflare and the API token has proper permissions.'')
         500 (Some ''cloudflare''))), st1)"
    by (simp only: adaptive_ops_def provider_ops.simps l2)
  have a: "fst (svc_listRecords construct_adaptive (adaptive_ops 2 no_zone_account no_config)
          ''example.com'' ''cloudflare'' ''token'' None new_service)
     = Some (Inl (DNSProviderError
         (''Failed to list DNS records: '' @
          ''Unable to find zone for example.com after trying 1 strategies. '' @
          ''Please ensure the domain is added to Cloudflare and the API token has proper permissions.'')
         500 (Some ''cloudflare'')))"
    unfolding svc_listRecords_def g prod.case sum.case p option.case
    using n by simp
  have k: "cacheKey ''digitalocean'' ''token'' = ''digitalocean_token''"
    by (simp add: cacheKey_def slice_last_def)
  have gd: "getDNSProvider construct_digitalocean ''digitalocean'' ''token'' new_service
      = (Inr (''digitalocean_token'', new_client), store ''digitalocean_token'' new_client new_service)"
    using getDNSProvider_new [of new_service "''digitalocean''" "''token''" construct_digitalocean new_client]
    unfolding k by (simp add: new_service_def construct_digitalocean_def)
  have ld: "p_listRecords (digitalocean_ops no_domains) ''example.com'' None new_client
      = (Some (Inl (DNSProviderError
               ''Failed to list DNS records: The resource you were accessing could not be found.''
               404 (Some ''digitalocean''))),
         issue (DO_ListRecords ''example.com'' 200 None) new_client)"
    by (simp add: digitalocean_ops_def returned_def do_listRecords_no_domains truthy_def)
  have nd: "not_found_class (DNSProviderError
               ''Failed to list DNS records: The resource you were accessing could not be found.''
               404 (Some ''digitalocean''))"
    by (simp add: not_found_class_def DNSProviderError_def)
  have b: "fst (svc_listRecords construct_digitalocean (digitalocean_ops no_domains)
          ''example.com'' ''digitalocean'' ''token'' None new_service) = Some (Inr [])"
    unfolding svc_listRecords_def gd prod.case sum.case ld option.case
    using nd by simp
  show ?thesis
    using z l a b by (intro conjI)
qed

end
